theory Spec2Isabelle
  imports Main "HOL-Library.Word"
begin

section \<open>JavaScript strings\<close>

text \<open>
  A JavaScript (and Dart) string is a sequence of UTF-16 code units; \<open>length\<close>,
  \<open>trim\<close>, \<open>includes\<close> and \<open>substring\<close> all work on code units.
\<close>

type_synonym jschar = "16 word"
type_synonym jsstring = "jschar list"

definition str :: "string \<Rightarrow> jsstring" where
  \<comment> \<open>an ASCII literal of the source, as code units\<close>
  "str s = map (\<lambda>c. of_nat (of_char c)) s"

definition is_js_space :: "jschar \<Rightarrow> bool" where
  \<comment> \<open>WhiteSpace and LineTerminator of ECMAScript, the code units \<open>trim\<close> strips\<close>
  "is_js_space c \<longleftrightarrow>
     c = 0x9 \<or> c = 0xA \<or> c = 0xB \<or> c = 0xC \<or> c = 0xD \<or> c = 0x20 \<or> c = 0xA0 \<or>
     c = 0x1680 \<or> (0x2000 \<le> c \<and> c \<le> 0x200A) \<or> c = 0x2028 \<or> c = 0x2029 \<or>
     c = 0x202F \<or> c = 0x205F \<or> c = 0x3000 \<or> c = 0xFEFF"

definition trim :: "jsstring \<Rightarrow> jsstring" where
  "trim s = rev (dropWhile is_js_space (rev (dropWhile is_js_space s)))"

fun js_includes :: "jsstring \<Rightarrow> jsstring \<Rightarrow> bool" where
  \<comment> \<open>\<open>s.includes(sub)\<close> (Dart: \<open>s.contains(sub)\<close>): \<open>sub\<close> occurs in \<open>s\<close> at some position\<close>
  "js_includes [] sub = (sub = [])"
| "js_includes (c # cs) sub = (take (length sub) (c # cs) = sub \<or> js_includes cs sub)"

definition substring_0 :: "nat \<Rightarrow> jsstring \<Rightarrow> jsstring" where
  \<comment> \<open>\<open>s.substring(0, n)\<close>\<close>
  "substring_0 n s = take n s"

section \<open>The diagnostic event history (part_001, lines 501-505)\<close>

definition push_debug_event :: "'a \<Rightarrow> 'a list \<Rightarrow> 'a list" where
  \<comment> \<open>the updater \<open>prev => [eventInfo, ...prev].slice(0, 20)\<close>\<close>
  "push_debug_event eventInfo prev = take 20 (eventInfo # prev)"

definition push_all :: "'a list \<Rightarrow> 'a list \<Rightarrow> 'a list" where
  \<comment> \<open>the updater applied once per event, in arrival order\<close>
  "push_all es prev = foldl (\<lambda>b e. push_debug_event e b) prev es"

section \<open>JSON values and the operators the handlers apply to them\<close>

typedecl jsnumber
  \<comment> \<open>an IEEE double as \<open>JSON.parse\<close> produces it; only its truthiness and its
      string conversion are used, both supplied by the host\<close>

datatype json =
    JNull
  | JBool bool
  | JNum jsnumber
  | JStr jsstring
  | JArr "json list"
  | JObj "(jsstring \<times> json) list"
    \<comment> \<open>own properties; the parser keeps one entry per key\<close>

datatype exn = TypeError | SyntaxError | HostError

record host =
  text_decode :: "8 word list option \<Rightarrow> exn + jsstring"
    \<comment> \<open>\<open>new TextDecoder().decode(payload)\<close>\<close>
  json_parse :: "jsstring \<Rightarrow> exn + json"
    \<comment> \<open>\<open>JSON.parse(message)\<close>\<close>
  num_truthy :: "jsnumber \<Rightarrow> bool"
  num_to_string :: "jsnumber \<Rightarrow> jsstring"

fun get_prop :: "json \<Rightarrow> jsstring \<Rightarrow> exn + json option" where
  \<comment> \<open>\<open>v.k\<close> for the keys the handlers read (none of them is inherited from a
      prototype); \<open>None\<close> is \<open>undefined\<close>\<close>
  "get_prop JNull k = Inl TypeError"
| "get_prop (JObj kvs) k = Inr (map_of kvs k)"
| "get_prop v k = Inr None"

fun truthy :: "host \<Rightarrow> json option \<Rightarrow> bool" where
  "truthy h None = False"
| "truthy h (Some JNull) = False"
| "truthy h (Some (JBool b)) = b"
| "truthy h (Some (JNum n)) = num_truthy h n"
| "truthy h (Some (JStr s)) = (s \<noteq> [])"
| "truthy h (Some (JArr xs)) = True"
| "truthy h (Some (JObj kvs)) = True"

definition or_else :: "host \<Rightarrow> json option \<Rightarrow> json option \<Rightarrow> json option" where
  \<comment> \<open>\<open>a || b\<close>\<close>
  "or_else h a b = (if truthy h a then a else b)"

definition or_default :: "host \<Rightarrow> json option \<Rightarrow> json \<Rightarrow> json" where
  \<comment> \<open>\<open>a || b\<close> with a literal \<open>b\<close>\<close>
  "or_default h a b = (case a of None \<Rightarrow> b | Some v \<Rightarrow> if truthy h (Some v) then v else b)"

definition strict_eq_str :: "json option \<Rightarrow> jsstring \<Rightarrow> bool" where
  \<comment> \<open>\<open>v === 'literal'\<close>\<close>
  "strict_eq_str v lit = (case v of Some (JStr s) \<Rightarrow> s = lit | _ \<Rightarrow> False)"

fun join_comma :: "jsstring list \<Rightarrow> jsstring" where
  "join_comma [] = []"
| "join_comma [x] = x"
| "join_comma (x # y # ys) = x @ str '','' @ join_comma (y # ys)"

fun to_string :: "host \<Rightarrow> json \<Rightarrow> exn + jsstring"
  and to_strings :: "host \<Rightarrow> json list \<Rightarrow> exn + jsstring list" where
  \<comment> \<open>ToString of a template literal: an array joins its elements (null as the empty
      string), an object is \<open>[object Object]\<close> unless an own \<open>toString\<close> property
      (never callable in parsed JSON) hides the inherited method\<close>
  "to_string h JNull = Inr (str ''null'')"
| "to_string h (JBool b) = Inr (if b then str ''true'' else str ''false'')"
| "to_string h (JNum n) = Inr (num_to_string h n)"
| "to_string h (JStr s) = Inr s"
| "to_string h (JArr xs) =
     (case to_strings h xs of Inl e \<Rightarrow> Inl e | Inr ss \<Rightarrow> Inr (join_comma ss))"
| "to_string h (JObj kvs) =
     (if map_of kvs (str ''toString'') \<noteq> None then Inl TypeError
      else Inr (str ''[object Object]''))"
| "to_strings h [] = Inr []"
| "to_strings h (x # xs) =
     (case (if x = JNull then Inr [] else to_string h x) of
        Inl e \<Rightarrow> Inl e
      | Inr s \<Rightarrow> (case to_strings h xs of Inl e \<Rightarrow> Inl e | Inr ss \<Rightarrow> Inr (s # ss)))"

section \<open>Effects: the calls a handler makes, in program order\<close>

record track =
  track_kind :: string
  track_sid :: jsstring

record publication =
  pub_kind :: string
  pub_track :: "track option"

record participant =
  identity :: jsstring
  tracks :: "publication list"

record eventInfo =
  ei_type :: "json option"
  ei_text :: jsstring
  ei_chunk :: "json option"
  ei_is_final :: "json option"
  ei_source_language :: "json option"
  ei_target_language :: "json option"
  ei_confidence :: "json option"
  ei_timestamp :: "json option"
  ei_received_at :: jsstring

record control_message =
  cm_type :: jsstring
  cm_action :: jsstring
  cm_timestamp :: int
  cm_room :: jsstring

datatype action =
    ConsoleLog string "jsstring option"
      \<comment> \<open>a \<open>console.log\<close> call: its tag, and the participant identity where the call prints one\<close>
  | ConsoleError string
  | Alert string
  | SetSubtitle jsstring
  | SetPartialSubtitle jsstring
  | SetFinalSubtitle jsstring
  | PushDebugEvent eventInfo
  | SetIsTranslating bool
  | SetAgentParticipant "participant option"
  | ListenTracks jsstring
  | AttachAudio jsstring
  | PublishData control_message
  | ScheduleTestMessage nat
  | Rpc jsstring string

type_synonym 'a comp = "action list \<times> (exn + 'a)"
  \<comment> \<open>the calls made so far, and either the exception thrown or the value\<close>

definition emits :: "action list \<Rightarrow> unit comp" where
  "emits as = (as, Inr ())"

definition eval_then :: "exn + 'a \<Rightarrow> ('a \<Rightarrow> 'b comp) \<Rightarrow> 'b comp" where
  \<comment> \<open>evaluate an expression that may throw, then continue\<close>
  "eval_then r k = (case r of Inl e \<Rightarrow> ([], Inl e) | Inr v \<Rightarrow> k v)"

definition seq :: "unit comp \<Rightarrow> 'a comp \<Rightarrow> 'a comp" where
  \<comment> \<open>statement sequencing: a throw skips what follows and keeps what was done\<close>
  "seq m k = (case snd m of Inl e \<Rightarrow> (fst m, Inl e) | Inr u \<Rightarrow> (fst m @ fst k, snd k))"

definition try_catch :: "unit comp \<Rightarrow> (exn \<Rightarrow> unit comp) \<Rightarrow> unit comp" where
  "try_catch m handler =
     (case snd m of
        Inl e \<Rightarrow> (fst m @ fst (handler e), snd (handler e))
      | Inr u \<Rightarrow> m)"

section \<open>Component state (part_001, lines 105-117)\<close>

record ui_state =
  isConnected :: bool
  isTranslating :: bool
  subtitle :: jsstring
  partialSubtitle :: jsstring
  finalSubtitle :: jsstring
  agentParticipant :: "participant option"
  debugEvents :: "eventInfo list"

definition initial_state :: ui_state where
  "initial_state = \<lparr> isConnected = False, isTranslating = False, subtitle = [],
     partialSubtitle = [], finalSubtitle = [], agentParticipant = None, debugEvents = [] \<rparr>"

fun apply_action :: "action \<Rightarrow> ui_state \<Rightarrow> ui_state" where
  "apply_action (SetSubtitle t) s = s\<lparr>subtitle := t\<rparr>"
| "apply_action (SetPartialSubtitle t) s = s\<lparr>partialSubtitle := t\<rparr>"
| "apply_action (SetFinalSubtitle t) s = s\<lparr>finalSubtitle := t\<rparr>"
| "apply_action (PushDebugEvent ei) s = s\<lparr>debugEvents := push_debug_event ei (debugEvents s)\<rparr>"
| "apply_action (SetIsTranslating b) s = s\<lparr>isTranslating := b\<rparr>"
| "apply_action (SetAgentParticipant p) s = s\<lparr>agentParticipant := p\<rparr>"
| "apply_action a s = s"

definition run :: "action list \<Rightarrow> ui_state \<Rightarrow> ui_state" where
  \<comment> \<open>the state after the queued setter calls are applied in order\<close>
  "run as s = foldl (\<lambda>st a. apply_action a st) s as"

section \<open>Literals of the source\<close>

definition pending_indicator :: jsstring where
  \<comment> \<open>the suffix of line 580: a space and U+23F3\<close>
  "pending_indicator = [0x20, 0x23F3]"

definition punctuation :: "jschar list" where
  \<comment> \<open>the character class of line 566: U+3002 U+FF01 U+FF1F U+FF0C U+3001 U+FF1B U+FF1A\<close>
  "punctuation = [0x3002, 0xFF01, 0xFF1F, 0xFF0C, 0x3001, 0xFF1B, 0xFF1A]"

definition status_prefix :: jsstring where
  \<comment> \<open>the head of the template of line 633, ending in a colon and a space\<close>
  "status_prefix = [0x7FFB, 0x8BD1, 0x72B6, 0x6001, 0x3A, 0x20]"

definition started_text :: jsstring where
  \<comment> \<open>the subtitle of line 222\<close>
  "started_text = [0x7FFB, 0x8BD1, 0x6A21, 0x5F0F, 0x5DF2, 0x542F, 0x52A8, 0xFF0C, 0x8BF7,
     0x5F00, 0x59CB, 0x8BF4, 0x8BDD, 0x2E, 0x2E, 0x2E]"

definition stopped_text :: jsstring where
  \<comment> \<open>the subtitle of line 259\<close>
  "stopped_text = [0x7FFB, 0x8BD1, 0x6A21, 0x5F0F, 0x5DF2, 0x505C, 0x6B62]"

definition failed_text :: jsstring where
  \<comment> \<open>the subtitle of line 272\<close>
  "failed_text = [0x7FFB, 0x8BD1, 0x63A7, 0x5236, 0x5931, 0x8D25, 0xFF0C, 0x8BF7, 0x91CD, 0x8BD5]"

definition regex_test_punct :: "jsstring \<Rightarrow> bool" where
  \<comment> \<open>the regular expression test of line 566: some code unit is in the class\<close>
  "regex_test_punct s = (\<exists>c \<in> set s. c \<in> set punctuation)"

definition preview :: "jsstring \<Rightarrow> jsstring" where
  \<comment> \<open>\<open>t.substring(0, 100) + (t.length > 100 ? '...' : '')\<close>\<close>
  "preview t = substring_0 100 t @ (if length t > 100 then str ''...'' else [])"

definition string_receiver :: "json \<Rightarrow> exn + jsstring" where
  \<comment> \<open>the receiver of a String method call: anything but a string has no such method
      (or no properties at all), and the call throws\<close>
  "string_receiver v = (case v of JStr t \<Rightarrow> Inr t | _ \<Rightarrow> Inl TypeError)"

definition optional_preview :: "json option \<Rightarrow> exn + jsstring" where
  \<comment> \<open>\<open>v?.substring(0, 100) + (v?.length > 100 ? '...' : '')\<close>: the optional chain
      yields \<open>undefined\<close> on null and undefined only\<close>
  "optional_preview v =
     (case v of
        None \<Rightarrow> Inr (str ''undefined'')
      | Some JNull \<Rightarrow> Inr (str ''undefined'')
      | Some (JStr t) \<Rightarrow> Inr (preview t)
      | Some other \<Rightarrow> Inl TypeError)"

section \<open>The inbound data handlers (part_001, lines 464-641)\<close>

definition handleTranslationStream :: "host \<Rightarrow> json \<Rightarrow> unit comp" where
  "handleTranslationStream h data =
     eval_then (get_prop data (str ''text'')) (\<lambda>d_text.
     eval_then (get_prop data (str ''chunk'')) (\<lambda>d_chunk.
     eval_then (get_prop data (str ''is_final'')) (\<lambda>d_final.
       let text = or_default h d_text (JStr []);
           chunk = or_default h d_chunk (JStr []);
           isFinal = or_default h d_final (JBool False)
       in eval_then (string_receiver text) (\<lambda>t.
            seq (emits [ConsoleLog ''translation-stream'' None])
              (if t = [] \<or> length (trim t) = 0 then
                 emits [ConsoleLog ''translation-stream: skip empty'' None]
               else if length (trim t) = 1 \<and> \<not> regex_test_punct (trim t) then
                 emits [ConsoleLog ''translation-stream: skip short'' None]
               else if truthy h (Some isFinal) then
                 emits [SetFinalSubtitle t, SetPartialSubtitle [], SetSubtitle t,
                        ConsoleLog ''translation-stream: final'' None]
               else
                 emits [SetPartialSubtitle t, SetSubtitle (t @ pending_indicator),
                        ConsoleLog ''translation-stream: partial'' None])))))"

definition handleTranslation :: "host \<Rightarrow> json \<Rightarrow> unit comp" where
  "handleTranslation h data =
     eval_then (get_prop data (str ''text'')) (\<lambda>d_text.
     eval_then (get_prop data (str ''content'')) (\<lambda>d_content.
       let text = or_default h (or_else h d_text d_content) (JStr [])
       in eval_then (string_receiver text) (\<lambda>t.
            seq (emits [ConsoleLog ''translation'' None])
              (if t \<noteq> [] \<and> trim t \<noteq> [] then
                 emits [SetFinalSubtitle t, SetPartialSubtitle [], SetSubtitle t]
               else emits []))))"

definition handleTranscript :: "host \<Rightarrow> json \<Rightarrow> unit comp" where
  "handleTranscript h data =
     eval_then (get_prop data (str ''text'')) (\<lambda>d_text.
     eval_then (get_prop data (str ''content'')) (\<lambda>d_content.
       let text = or_default h (or_else h d_text d_content) (JStr [])
       in eval_then (string_receiver text) (\<lambda>t.
            seq (emits [ConsoleLog ''transcript'' None])
              (if t \<noteq> [] \<and> trim t \<noteq> [] then
                 emits [ConsoleLog ''transcript: content'' None]
               else emits []))))"

definition handleTranslationStatus :: "host \<Rightarrow> json \<Rightarrow> unit comp" where
  "handleTranslationStatus h data =
     eval_then (get_prop data (str ''status'')) (\<lambda>d_status.
     eval_then (get_prop data (str ''language'')) (\<lambda>d_language.
       let status = or_default h d_status (JStr []);
           language = or_default h d_language (JStr [])
       in seq (emits [ConsoleLog ''translation-status'' None])
            (eval_then (to_string h status) (\<lambda>status_str.
             eval_then (if truthy h (Some language)
                        then (case to_string h language of
                                Inl e \<Rightarrow> Inl e
                              | Inr l \<Rightarrow> Inr (str '' ('' @ l @ str '')''))
                        else Inr []) (\<lambda>language_str.
               seq (emits [SetSubtitle (status_prefix @ status_str @ language_str)])
                 (if strict_eq_str (Some status) (str ''stopped'') then
                    emits [SetPartialSubtitle [], SetFinalSubtitle []]
                  else emits []))))))"

record data_event =
  payload :: "8 word list option"
  participant :: "participant option"

definition build_eventInfo :: "json \<Rightarrow> jsstring \<Rightarrow> exn + eventInfo" where
  \<comment> \<open>the object literal of lines 487-497; \<open>now\<close> is the clock reading of line 496\<close>
  "build_eventInfo jsonData now =
     (case get_prop jsonData (str ''type'') of
        Inl e \<Rightarrow> Inl e
      | Inr ty \<Rightarrow>
     (case get_prop jsonData (str ''text'') of
        Inl e \<Rightarrow> Inl e
      | Inr tx \<Rightarrow>
     (case optional_preview tx of
        Inl e \<Rightarrow> Inl e
      | Inr shown \<Rightarrow>
     (case (get_prop jsonData (str ''chunk''), get_prop jsonData (str ''is_final''),
            get_prop jsonData (str ''source_language''), get_prop jsonData (str ''target_language''),
            get_prop jsonData (str ''confidence''), get_prop jsonData (str ''timestamp'')) of
        (Inr v_chunk, Inr v_final, Inr v_src, Inr v_tgt, Inr v_conf, Inr v_time) \<Rightarrow>
          Inr \<lparr> ei_type = ty, ei_text = shown, ei_chunk = v_chunk, ei_is_final = v_final,
                ei_source_language = v_src, ei_target_language = v_tgt, ei_confidence = v_conf,
                ei_timestamp = v_time, ei_received_at = now \<rparr>
      | other \<Rightarrow> Inl TypeError))))"

definition handleUnknown :: "host \<Rightarrow> jsstring \<Rightarrow> json \<Rightarrow> unit comp" where
  \<comment> \<open>the final \<open>else\<close> of the dispatch, lines 524-532\<close>
  "handleUnknown h message jsonData =
     seq (emits [ConsoleLog ''subtitles-recv: unknown type'' None])
       (eval_then (get_prop jsonData (str ''text'')) (\<lambda>tx.
          if truthy h tx then
            eval_then (string_receiver (or_default h tx JNull)) (\<lambda>t.
              if trim t \<noteq> [] then emits [SetSubtitle t] else emits [SetSubtitle message])
          else emits [SetSubtitle message]))"

definition dispatch :: "host \<Rightarrow> jsstring \<Rightarrow> json \<Rightarrow> json option \<Rightarrow> unit comp" where
  \<comment> \<open>the \<open>if\<close>/\<open>else if\<close> chain on \<open>jsonData.type\<close>, lines 508-532\<close>
  "dispatch h message jsonData ty =
     (if strict_eq_str ty (str ''translation_stream'') then handleTranslationStream h jsonData
      else if strict_eq_str ty (str ''translation'') then handleTranslation h jsonData
      else if strict_eq_str ty (str ''transcript'') then handleTranscript h jsonData
      else if strict_eq_str ty (str ''translation_status'') then handleTranslationStatus h jsonData
      else handleUnknown h message jsonData)"

definition handlePlainText :: "jsstring \<Rightarrow> unit comp" where
  \<comment> \<open>the inner \<open>catch\<close>, lines 533-539\<close>
  "handlePlainText message =
     seq (emits [ConsoleLog ''subtitles-recv: plain text'' None])
       (if message \<noteq> [] \<and> trim message \<noteq> [] then emits [SetSubtitle message] else emits [])"

definition handleParsed :: "host \<Rightarrow> jsstring \<Rightarrow> jsstring \<Rightarrow> json \<Rightarrow> unit comp" where
  \<comment> \<open>the inner \<open>try\<close> block after \<open>JSON.parse\<close>, lines 486-532\<close>
  "handleParsed h now message jsonData =
     eval_then (build_eventInfo jsonData now) (\<lambda>info.
       seq (emits [ConsoleLog ''subtitles-recv: parsed'' None, PushDebugEvent info])
         (dispatch h message jsonData (ei_type info)))"

definition handleMessage :: "host \<Rightarrow> jsstring \<Rightarrow> jsstring \<Rightarrow> unit comp" where
  \<comment> \<open>the inner \<open>try\<close>/\<open>catch\<close>, lines 483-539\<close>
  "handleMessage h now message =
     try_catch (eval_then (json_parse h message) (handleParsed h now message))
       (\<lambda>parseError. handlePlainText message)"

definition handleDataReceived :: "host \<Rightarrow> jsstring \<Rightarrow> data_event \<Rightarrow> unit comp" where
  \<comment> \<open>lines 464-543; \<open>now\<close> is the clock reading of line 496\<close>
  "handleDataReceived h now e =
     (let who = map_option identity (participant e) in
      seq (emits [ConsoleLog ''handleDataReceived'' who,
                  ConsoleLog ''handleDataReceived: participant'' who,
                  ConsoleLog ''handleDataReceived: payload length'' None])
        (try_catch
           (eval_then (text_decode h (payload e)) (\<lambda>message.
              seq (emits [ConsoleLog ''subtitles-recv: message'' who])
                (handleMessage h now message)))
           (\<lambda>error. emits [ConsoleError ''handleDataReceived failed''])))"

definition recognized_type :: "json option \<Rightarrow> bool" where
  \<comment> \<open>the four values the chain of lines 508-521 tests \<open>jsonData.type\<close> against\<close>
  "recognized_type ty \<longleftrightarrow>
     strict_eq_str ty (str ''translation_stream'') \<or> strict_eq_str ty (str ''translation'') \<or>
     strict_eq_str ty (str ''transcript'') \<or> strict_eq_str ty (str ''translation_status'')"

section \<open>The payload as one classified event\<close>

datatype inbound_event =
    TranslationStreamEvent json
  | TranslationEvent json
  | TranscriptEvent json
  | TranslationStatusEvent json
  | UnknownEvent json
  | PlainTextEvent jsstring

definition classify :: "host \<Rightarrow> jsstring \<Rightarrow> inbound_event" where
  \<comment> \<open>the branch of \<open>handleDataReceived\<close> a decoded message takes: the inner \<open>catch\<close>
      when \<open>JSON.parse\<close> or the object literal of lines 487-497 throws, else the arm of the
      chain on \<open>jsonData.type\<close>\<close>
  "classify h message =
     (case json_parse h message of
        Inl e \<Rightarrow> PlainTextEvent message
      | Inr jsonData \<Rightarrow>
     (case build_eventInfo jsonData [] of
        Inl e \<Rightarrow> PlainTextEvent message
      | Inr info \<Rightarrow>
          if strict_eq_str (ei_type info) (str ''translation_stream'') then TranslationStreamEvent jsonData
          else if strict_eq_str (ei_type info) (str ''translation'') then TranslationEvent jsonData
          else if strict_eq_str (ei_type info) (str ''transcript'') then TranscriptEvent jsonData
          else if strict_eq_str (ei_type info) (str ''translation_status'') then TranslationStatusEvent jsonData
          else UnknownEvent jsonData))"

definition apply_event :: "host \<Rightarrow> jsstring \<Rightarrow> inbound_event \<Rightarrow> unit comp" where
  \<comment> \<open>the handler each arm calls\<close>
  "apply_event h message ev =
     (case ev of
        TranslationStreamEvent data \<Rightarrow> handleTranslationStream h data
      | TranslationEvent data \<Rightarrow> handleTranslation h data
      | TranscriptEvent data \<Rightarrow> handleTranscript h data
      | TranslationStatusEvent data \<Rightarrow> handleTranslationStatus h data
      | UnknownEvent data \<Rightarrow> handleUnknown h message data
      | PlainTextEvent m \<Rightarrow> handlePlainText m)"

fun is_caption_setter :: "action \<Rightarrow> bool" where
  "is_caption_setter (SetSubtitle t) = True"
| "is_caption_setter (SetPartialSubtitle t) = True"
| "is_caption_setter (SetFinalSubtitle t) = True"
| "is_caption_setter a = False"

fun is_trace_insert :: "action \<Rightarrow> bool" where
  "is_trace_insert (PushDebugEvent info) = True"
| "is_trace_insert a = False"

definition caption :: "ui_state \<Rightarrow> jsstring \<times> jsstring \<times> jsstring" where
  \<comment> \<open>the caption state: displayText, partialText, finalText\<close>
  "caption s = (subtitle s, partialSubtitle s, finalSubtitle s)"

definition caption_inv :: "ui_state \<Rightarrow> bool" where
  \<comment> \<open>the invariant the data model states for the caption state\<close>
  "caption_inv s \<longleftrightarrow>
     subtitle s =
       (if partialSubtitle s \<noteq> [] then partialSubtitle s @ pending_indicator
        else if finalSubtitle s \<noteq> [] then finalSubtitle s
        else [])"

definition receive :: "host \<Rightarrow> jsstring \<times> data_event \<Rightarrow> ui_state \<Rightarrow> ui_state" where
  \<comment> \<open>one arrival (the clock reading and the event) handled by \<open>handleDataReceived\<close>, and
      the setters it queued applied\<close>
  "receive h arrival s = run (fst (handleDataReceived h (fst arrival) (snd arrival))) s"

definition receive_all :: "host \<Rightarrow> (jsstring \<times> data_event) list \<Rightarrow> ui_state \<Rightarrow> ui_state" where
  \<comment> \<open>the arrivals handled one after the other, in order\<close>
  "receive_all h arrivals s = foldl (\<lambda>st arrival. receive h arrival st) s arrivals"

definition caption_payload :: "host \<Rightarrow> data_event \<Rightarrow> bool" where
  \<comment> \<open>the payload decodes, the chain of lines 508-521 sends it to the translation-stream,
      the translation or the transcript handler, and that handler returns without throwing
      (so the inner \<open>catch\<close> of lines 533-539 is not entered)\<close>
  "caption_payload h e \<longleftrightarrow>
     (case text_decode h (payload e) of
        Inl x \<Rightarrow> False
      | Inr message \<Rightarrow>
     (case classify h message of
        TranslationStreamEvent data \<Rightarrow> snd (handleTranslationStream h data) = Inr ()
      | TranslationEvent data \<Rightarrow> snd (handleTranslation h data) = Inr ()
      | TranscriptEvent data \<Rightarrow> snd (handleTranscript h data) = Inr ()
      | other \<Rightarrow> False))"

section \<open>Agent discovery\<close>

definition handleTrackSubscribed :: "track \<Rightarrow> action list" where
  \<comment> \<open>part_001, lines 412-455: an audio track is attached to a playback element\<close>
  "handleTrackSubscribed t =
     ConsoleLog ''track subscribed'' None #
     (if track_kind t = ''audio'' then [ConsoleLog ''audio track'' None, AttachAudio (track_sid t)]
      else [])"

definition handleParticipantConnected :: "participant \<Rightarrow> action list" where
  \<comment> \<open>part_001, lines 371-409 (part_002, lines 271-309, is the same)\<close>
  "handleParticipantConnected p =
     ConsoleLog ''participant joined'' (Some (identity p)) #
     (if js_includes (identity p) (str ''translator'') \<or> js_includes (identity p) (str ''agent'')
      then [ConsoleLog ''found translation agent'' (Some (identity p)),
            SetAgentParticipant (Some p),
            ListenTracks (identity p)] @
           concat (map (\<lambda>pub. ConsoleLog ''existing agent track'' None #
                           (case pub_track pub of None \<Rightarrow> [] | Some t \<Rightarrow> handleTrackSubscribed t))
                       (tracks p))
      else [])"

record flutter_state =
  fl_agent :: "participant option"
  fl_agentState :: jsstring

definition found_agent_text :: jsstring where
  \<comment> \<open>the status text of main.dart, line 316\<close>
  "found_agent_text = [0x5DF2, 0x627E, 0x5230, 0x7FFB, 0x8BD1, 0x4EE3, 0x7406]"

definition handleParticipant_flutter :: "participant \<Rightarrow> flutter_state \<Rightarrow> flutter_state" where
  \<comment> \<open>\<open>_handleParticipant\<close> of flutter_client/main.dart, lines 309-332: the \<open>setState\<close>
      it performs (the track listeners it registers leave these fields alone)\<close>
  "handleParticipant_flutter p st =
     (if js_includes (identity p) (str ''translator'')
      then st\<lparr>fl_agent := Some p, fl_agentState := found_agent_text\<rparr>
      else st)"

section \<open>The start/stop control\<close>

record mic_track =
  isMuted :: bool

record mic_publication =
  mic_track :: "mic_track option"
  mic_trackSid :: jsstring

record room =
  room_name :: jsstring
  microphone :: "mic_publication option"
    \<comment> \<open>\<open>room.localParticipant.getTrack(Track.Source.Microphone)\<close>\<close>

definition publishData :: "(control_message \<Rightarrow> exn + unit) \<Rightarrow> control_message \<Rightarrow> unit comp" where
  \<comment> \<open>\<open>await room.localParticipant.publishData(data, RELIABLE)\<close> on the serialised
      message: the call is made, and the transport decides whether it throws\<close>
  "publishData transport m = ([PublishData m], transport m)"

definition mic_unavailable :: "unit comp" where
  "mic_unavailable = emits [ConsoleLog ''microphone not enabled or muted'' None,
                            Alert ''enable the microphone'']"

definition toggleTranslation ::
  "(control_message \<Rightarrow> exn + unit) \<Rightarrow> int \<Rightarrow> room option \<Rightarrow> ui_state \<Rightarrow> unit comp" where
  \<comment> \<open>part_001, lines 174-276: the broadcast variant. \<open>now\<close> is \<open>Date.now()\<close>, the room
      option is \<open>roomRef.current\<close>\<close>
  "toggleTranslation transport now roomRef s =
     seq (emits [ConsoleLog ''toggleTranslation clicked'' None,
                 ConsoleLog ''toggleTranslation: isConnected'' None,
                 ConsoleLog ''toggleTranslation: roomRef'' None])
       (case roomRef of
          None \<Rightarrow> emits [ConsoleError ''room not connected'', Alert ''connect to a room first'']
        | Some room \<Rightarrow>
            if \<not> isConnected s then
              emits [ConsoleError ''room not connected'', Alert ''connect to a room first'']
            else
              try_catch
                (case microphone room of
                   None \<Rightarrow> mic_unavailable
                 | Some pub \<Rightarrow>
                (case mic_track pub of
                   None \<Rightarrow> mic_unavailable
                 | Some t \<Rightarrow>
                     if isMuted t then mic_unavailable
                     else
                       seq (emits [ConsoleLog ''microphone check passed'' None])
                         (if \<not> isTranslating s then
                            seq (emits [ConsoleLog ''rpc-call: start'' None])
                           (seq (publishData transport
                                   \<lparr> cm_type = str ''translation_control'', cm_action = str ''start'',
                                     cm_timestamp = now, cm_room = room_name room \<rparr>)
                                (emits [ConsoleLog ''rpc-call: start broadcast'' None,
                                        SetIsTranslating True,
                                        SetSubtitle started_text,
                                        ScheduleTestMessage 2000]))
                          else
                            seq (emits [ConsoleLog ''rpc-call: stop'' None])
                           (seq (publishData transport
                                   \<lparr> cm_type = str ''translation_control'', cm_action = str ''stop'',
                                     cm_timestamp = now, cm_room = room_name room \<rparr>)
                                (emits [ConsoleLog ''rpc-call: stop broadcast'' None,
                                        SetIsTranslating False,
                                        SetSubtitle stopped_text])))))
                (\<lambda>error. emits [ConsoleError ''translation control failed'',
                                 SetIsTranslating False,
                                 SetSubtitle failed_text,
                                 Alert ''translation control failed'']))"

definition rpc_call :: "(jsstring \<Rightarrow> string \<Rightarrow> exn + unit) \<Rightarrow> jsstring \<Rightarrow> string \<Rightarrow> unit comp" where
  \<comment> \<open>\<open>await room.localParticipant.rpc(identity, method)\<close>\<close>
  "rpc_call transport dest method = ([Rpc dest method], transport dest method)"

definition toggleTranslation_rpc ::
  "(jsstring \<Rightarrow> string \<Rightarrow> exn + unit) \<Rightarrow> room option \<Rightarrow> ui_state \<Rightarrow> unit comp" where
  \<comment> \<open>\<open>toggleTranslation\<close> of part_002, lines 148-178: the request/response variant\<close>
  "toggleTranslation_rpc transport roomRef s =
     (case (roomRef, agentParticipant s) of
        (Some room, Some agent) \<Rightarrow>
          if \<not> isConnected s then emits [ConsoleError ''room not connected or no agent found'']
          else
            try_catch
              (if \<not> isTranslating s then
                 seq (emits [ConsoleLog ''rpc: start_translation'' None])
                (seq (rpc_call transport (identity agent) ''start_translation'')
                     (emits [ConsoleLog ''rpc result'' None, SetIsTranslating True]))
               else
                 seq (emits [ConsoleLog ''rpc: stop_translation'' None])
                (seq (rpc_call transport (identity agent) ''stop_translation'')
                     (emits [ConsoleLog ''rpc result'' None, SetIsTranslating False])))
              (\<lambda>error. emits [ConsoleError ''translation control failed'',
                               Alert ''translation control failed''])
      | other \<Rightarrow> emits [ConsoleError ''room not connected or no agent found''])"

fun is_send :: "action \<Rightarrow> bool" where
  \<comment> \<open>the calls that put data on the channel, now or from a timer\<close>
  "is_send (PublishData m) = True"
| "is_send (Rpc dest method) = True"
| "is_send (ScheduleTestMessage ms) = True"
| "is_send a = False"

fun is_precondition_error :: "action \<Rightarrow> bool" where
  "is_precondition_error (ConsoleError msg) = True"
| "is_precondition_error (Alert msg) = True"
| "is_precondition_error a = False"

definition mic_live :: "room option \<Rightarrow> bool" where
  \<comment> \<open>the microphone check of lines 190-195 passes: the room is there, its microphone
      publication has a track, and the track is not muted\<close>
  "mic_live roomRef \<longleftrightarrow>
     (\<exists>room pub t. roomRef = Some room \<and> microphone room = Some pub \<and>
                    mic_track pub = Some t \<and> \<not> isMuted t)"

definition live_room :: room where
  \<comment> \<open>a joined room with an unmuted microphone track, for concrete runs\<close>
  "live_room = \<lparr> room_name = str ''Pryme-Korean'',
                 microphone = Some \<lparr> mic_track = Some \<lparr> isMuted = False \<rparr>,
                                     mic_trackSid = str ''TR_mic'' \<rparr> \<rparr>"

section \<open>A host for concrete runs\<close>

definition ascii_decode :: "8 word list option \<Rightarrow> exn + jsstring" where
  \<comment> \<open>what \<open>TextDecoder.decode\<close> returns on a payload of ASCII bytes, and on \<open>undefined\<close>\<close>
  "ascii_decode p = (case p of None \<Rightarrow> Inr [] | Some bs \<Rightarrow> Inr (map ucast bs))"

definition table_host :: "(jsstring \<times> json) list \<Rightarrow> host" where
  \<comment> \<open>a host whose \<open>JSON.parse\<close> is listed message by message, and throws elsewhere\<close>
  "table_host table =
     \<lparr> text_decode = ascii_decode,
       json_parse = (\<lambda>m. case map_of table m of None \<Rightarrow> Inl SyntaxError | Some v \<Rightarrow> Inr v),
       num_truthy = (\<lambda>n. True),
       num_to_string = (\<lambda>n. str ''1'') \<rparr>"

definition ascii_bytes :: "string \<Rightarrow> 8 word list" where
  "ascii_bytes s = map (\<lambda>c. of_nat (of_char c)) s"

definition ping_message :: string where
  \<comment> \<open>a structured payload of an unrecognised type, without text\<close>
  \<open>ping_message = ''{"type":"ping"}''\<close>

definition ping_json :: json where
  "ping_json = JObj [(str ''type'', JStr (str ''ping''))]"

definition hello_message :: string where
  \<comment> \<open>a payload that is not structured data\<close>
  "hello_message = ''hello''"

definition example_host :: host where
  "example_host = table_host [(str ping_message, ping_json)]"

definition ping_event :: "jsstring option \<Rightarrow> data_event" where
  \<comment> \<open>the arrival of \<open>ping_message\<close> from the participant of the given identity\<close>
  "ping_event who =
     \<lparr> payload = Some (ascii_bytes ping_message),
       participant = map_option (\<lambda>i. \<lparr>identity = i, tracks = []\<rparr>) who \<rparr>"

definition hello_event :: data_event where
  "hello_event = \<lparr> payload = Some (ascii_bytes hello_message), participant = None \<rparr>"

definition partial_message :: string where
  \<comment> \<open>a non-final translation-stream payload\<close>
  \<open>partial_message = ''{"type":"translation_stream","text":"hello","is_final":false}''\<close>

definition partial_json :: json where
  "partial_json = JObj [(str ''type'', JStr (str ''translation_stream'')),
                        (str ''text'', JStr (str ''hello'')),
                        (str ''is_final'', JBool False)]"

definition final_message :: string where
  \<comment> \<open>a final translation-stream payload\<close>
  \<open>final_message = ''{"type":"translation_stream","text":"hello there","is_final":true}''\<close>

definition final_json :: json where
  "final_json = JObj [(str ''type'', JStr (str ''translation_stream'')),
                      (str ''text'', JStr (str ''hello there'')),
                      (str ''is_final'', JBool True)]"

definition stream_host :: host where
  "stream_host = table_host [(str partial_message, partial_json), (str final_message, final_json)]"

definition ascii_event :: "string \<Rightarrow> data_event" where
  \<comment> \<open>the arrival of an ASCII message from an unnamed participant\<close>
  "ascii_event m = \<lparr> payload = Some (ascii_bytes m), participant = None \<rparr>"

definition transcript_message :: string where
  \<comment> \<open>a transcript payload whose content is not a string\<close>
  \<open>transcript_message = ''{"type":"transcript","content":true}''\<close>

definition transcript_json :: json where
  "transcript_json = JObj [(str ''type'', JStr (str ''transcript'')),
                           (str ''content'', JBool True)]"

definition transcript_host :: host where
  "transcript_host = table_host [(str transcript_message, transcript_json)]"

definition null_message :: string where
  \<comment> \<open>a payload that parses, to the JSON value null\<close>
  "null_message = ''null''"

definition null_host :: host where
  "null_host = table_host [(str null_message, JNull)]"

section \<open>Properties of the event history\<close>

lemma push_all_snoc: "push_all (es @ [e]) prev = push_debug_event e (push_all es prev)"
  by (simp add: push_all_def)

lemma take_Suc_Cons_take: "take (Suc n) (e # take (Suc n) xs) = take (Suc n) (e # xs)"
  by (simp add: min_def)

lemma push_debug_event_take:
  "push_debug_event e (take 20 xs) = take 20 (e # xs)"
proof -
  have "(20::nat) = Suc 19" by simp
  then show ?thesis
    unfolding push_debug_event_def using take_Suc_Cons_take [of 19 e xs] by metis
qed

lemma push_all_take:
  "length prev \<le> 20 \<Longrightarrow> push_all es prev = take 20 (rev es @ prev)"
proof (induction es rule: rev_induct)
  case Nil
  then show ?case by (simp add: push_all_def)
next
  case (snoc e es)
  then have "push_all (es @ [e]) prev = push_debug_event e (take 20 (rev es @ prev))"
    by (simp add: push_all_snoc)
  then show ?case by (simp only: push_debug_event_take rev_append rev.simps append.simps)
qed

text \<open>
  Claim C8. Starting from the empty history, after the updater has run once per event
  the history is the twenty most recent events, newest first; it never holds more than
  twenty; once it holds twenty, one more insertion drops the last (oldest) entry; and
  after twenty-five insertions it holds exactly the last twenty inserted, the first
  five being gone.
\<close>

theorem trace_buffer_bound:
  "push_all es [] = take 20 (rev es)
   \<and> length (push_all es []) \<le> 20
   \<and> (length (push_all es []) = 20 \<longrightarrow>
        push_debug_event e (push_all es []) = e # butlast (push_all es []))
   \<and> (length es = 25 \<longrightarrow> length (push_all es []) = 20 \<and> push_all es [] = rev (drop 5 es))"
proof -
  have eq: "push_all es [] = take 20 (rev es)"
    using push_all_take [of "[]" es] by simp
  have evict: "push_debug_event e b = e # butlast b" if "length b = 20" for b :: "'a list"
  proof -
    have "take 20 (e # b) = e # take 19 b" by (simp add: take_Cons')
    moreover have "take 19 b = butlast b" using that by (simp add: butlast_conv_take)
    ultimately show ?thesis by (simp add: push_debug_event_def)
  qed
  have full: "take 20 (rev es) = rev (drop 5 es)" if "length es = 25"
    using that by (simp add: take_rev)
  show ?thesis using eq evict full by simp
qed

theorem trace_buffer_bound_witness:
  "length [1::nat,2,3,4,5,6,7,8,9,10,11,12,13,14,15,16,17,18,19,20,21,22,23,24,25] = 25
   \<and> push_all [1::nat,2,3,4,5,6,7,8,9,10,11,12,13,14,15,16,17,18,19,20,21,22,23,24,25] []
       = [25,24,23,22,21,20,19,18,17,16,15,14,13,12,11,10,9,8,7,6]
   \<and> push_debug_event 26 (push_all [1::nat,2,3,4,5,6,7,8,9,10,11,12,13,14,15,16,17,18,19,20,21,22,23,24,25] [])
       = [26,25,24,23,22,21,20,19,18,17,16,15,14,13,12,11,10,9,8,7]"
  using trace_buffer_bound [of "[1::nat,2,3,4,5,6,7,8,9,10,11,12,13,14,15,16,17,18,19,20,21,22,23,24,25]" 26]
  by (simp add: push_all_def push_debug_event_def)

section \<open>Running the queued calls\<close>

lemma str_simps: "str [] = []" "str (c # cs) = of_nat (of_char c) # str cs"
  by (simp_all add: str_def)

lemma truthy_or_default: "truthy h (Some (or_default h d (JBool False))) = truthy h d"
  by (cases d) (auto simp: or_default_def)

lemma run_Nil: "run [] s = s"
  by (simp add: run_def)
lemma run_Cons: "run (a # as) s = run as (apply_action a s)"
  by (simp add: run_def)
lemma run_append: "run (as @ bs) s = run bs (run as s)"
  by (simp add: run_def)

lemma single_outside:
  "(length xs = 1 \<and> \<not> regex_test_punct xs) \<longleftrightarrow> (\<exists>c. xs = [c] \<and> c \<notin> set punctuation)"
  by (cases xs) (auto simp: regex_test_punct_def)

section \<open>The caption handlers\<close>

text \<open>
  Claim C3. A translation-stream event whose text is a string (or is missing, which the
  handler reads as the empty string) leaves the whole state unchanged when the text is
  empty or only white space, or when it trims to a single code unit outside the
  punctuation class of line 566. Otherwise a final event sets the final text and the
  displayed text to the text and clears the partial text; a non-final event sets the
  partial text to the text and displays the text followed by the pending indicator. The
  handler returns normally. At the concrete inputs below a lone full-width comma is
  accepted and a lone letter a is rejected.
\<close>

theorem stream_event_applied:
  assumes "or_default h (map_of kvs (str ''text'')) (JStr []) = JStr t"
  shows "snd (handleTranslationStream h (JObj kvs)) = Inr () \<and>
         run (fst (handleTranslationStream h (JObj kvs))) s =
           (if trim t = [] \<or> (\<exists>c. trim t = [c] \<and> c \<notin> set punctuation) then s
            else if truthy h (map_of kvs (str ''is_final''))
              then s\<lparr>finalSubtitle := t, partialSubtitle := [], subtitle := t\<rparr>
            else s\<lparr>partialSubtitle := t, subtitle := t @ pending_indicator\<rparr>)"
proof -
  have empty: "t = [] \<Longrightarrow> trim t = []" by (simp add: trim_def)
  show ?thesis
    using assms empty single_outside [of "trim t"]
    by (auto simp: handleTranslationStream_def eval_then_def seq_def emits_def Let_def
        string_receiver_def truthy_or_default run_Cons run_Nil)
qed

theorem stream_event_applied_witness:
  "or_default (table_host []) (map_of [(str ''text'', JStr [0xFF0C]), (str ''is_final'', JBool False)] (str ''text'')) (JStr []) = JStr [0xFF0C]
   \<and> run (fst (handleTranslationStream (table_host []) (JObj [(str ''text'', JStr [0xFF0C]), (str ''is_final'', JBool False)]))) initial_state
       = initial_state\<lparr>partialSubtitle := [0xFF0C], subtitle := [0xFF0C, 0x20, 0x23F3]\<rparr>
   \<and> or_default (table_host []) (map_of [(str ''text'', JStr (str ''a'')), (str ''is_final'', JBool False)] (str ''text'')) (JStr []) = JStr (str ''a'')
   \<and> run (fst (handleTranslationStream (table_host []) (JObj [(str ''text'', JStr (str ''a'')), (str ''is_final'', JBool False)]))) initial_state
       = initial_state"
proof -
  have a: "or_default (table_host []) (map_of [(str ''text'', JStr [0xFF0C]), (str ''is_final'', JBool False)] (str ''text'')) (JStr []) = JStr [0xFF0C]"
    by (simp add: or_default_def str_simps)
  have b: "or_default (table_host []) (map_of [(str ''text'', JStr (str ''a'')), (str ''is_final'', JBool False)] (str ''text'')) (JStr []) = JStr (str ''a'')"
    by (simp add: or_default_def str_simps)
  show ?thesis
    using stream_event_applied [OF a, of initial_state] stream_event_applied [OF b, of initial_state] a b
    by (simp add: trim_def is_js_space_def punctuation_def pending_indicator_def str_simps)
qed

text \<open>
  Claim C4. A translation-status event sets the displayed text to the status line: the
  fixed prefix, the status, and the language in parentheses when the language is truthy.
  When the status is the string stopped, the partial and the final text are cleared as
  well; otherwise they are left as they were.
\<close>

theorem status_event_applied:
  assumes "to_string h (or_default h (map_of kvs (str ''status'')) (JStr [])) = Inr st"
      and "to_string h (or_default h (map_of kvs (str ''language'')) (JStr [])) = Inr lang"
  shows "snd (handleTranslationStatus h (JObj kvs)) = Inr () \<and>
         run (fst (handleTranslationStatus h (JObj kvs))) s =
           (let line = status_prefix @ st @
                       (if truthy h (map_of kvs (str ''language''))
                        then str '' ('' @ lang @ str '')'' else [])
            in if map_of kvs (str ''status'') = Some (JStr (str ''stopped''))
               then s\<lparr>subtitle := line, partialSubtitle := [], finalSubtitle := []\<rparr>
               else s\<lparr>subtitle := line\<rparr>)"
proof -
  have lang: "truthy h (Some (or_default h d (JStr []))) = truthy h d" for d
    by (cases d) (auto simp: or_default_def)
  have stopped: "strict_eq_str (Some (or_default h d (JStr []))) (str ''stopped'')
                 \<longleftrightarrow> d = Some (JStr (str ''stopped''))" for d
  proof (cases d)
    case None
    then show ?thesis by (simp add: or_default_def strict_eq_str_def str_simps)
  next
    case (Some v)
    then show ?thesis
      by (cases v) (auto simp: or_default_def strict_eq_str_def str_simps)
  qed
  show ?thesis
    using assms
    by (simp add: handleTranslationStatus_def eval_then_def seq_def emits_def Let_def
        lang stopped run_Cons run_Nil)
qed

theorem status_event_applied_witness:
  "to_string (table_host []) (or_default (table_host []) (map_of [(str ''status'', JStr (str ''stopped'')), (str ''language'', JStr (str ''ko''))] (str ''status'')) (JStr [])) = Inr (str ''stopped'')
   \<and> to_string (table_host []) (or_default (table_host []) (map_of [(str ''status'', JStr (str ''stopped'')), (str ''language'', JStr (str ''ko''))] (str ''language'')) (JStr [])) = Inr (str ''ko'')
   \<and> run (fst (handleTranslationStatus (table_host []) (JObj [(str ''status'', JStr (str ''stopped'')), (str ''language'', JStr (str ''ko''))])))
         (initial_state\<lparr>subtitle := str ''hi'', partialSubtitle := str ''hi'', finalSubtitle := str ''yo''\<rparr>)
       = initial_state\<lparr>subtitle := status_prefix @ str ''stopped (ko)'', partialSubtitle := [], finalSubtitle := []\<rparr>"
proof -
  have a: "to_string (table_host []) (or_default (table_host []) (map_of [(str ''status'', JStr (str ''stopped'')), (str ''language'', JStr (str ''ko''))] (str ''status'')) (JStr [])) = Inr (str ''stopped'')"
    by (simp add: or_default_def str_simps)
  have b: "to_string (table_host []) (or_default (table_host []) (map_of [(str ''status'', JStr (str ''stopped'')), (str ''language'', JStr (str ''ko''))] (str ''language'')) (JStr [])) = Inr (str ''ko'')"
    by (simp add: or_default_def str_simps)
  show ?thesis
    using status_event_applied [OF a b, of "initial_state\<lparr>subtitle := str ''hi'', partialSubtitle := str ''hi'', finalSubtitle := str ''yo''\<rparr>"] a b
    by (simp add: str_simps initial_state_def)
qed

section \<open>The data handler, branch by branch\<close>

lemma build_eventInfo_clock:
  "build_eventInfo j now =
     (case build_eventInfo j [] of Inl x \<Rightarrow> Inl x | Inr i \<Rightarrow> Inr (i\<lparr>ei_received_at := now\<rparr>))"
  by (auto simp: build_eventInfo_def split: sum.splits)

lemma build_eventInfo_type:
  "build_eventInfo j now = Inr info \<Longrightarrow> get_prop j (str ''type'') = Inr (ei_type info)"
  by (auto simp: build_eventInfo_def split: sum.splits)

lemma snd_handlePlainText: "snd (handlePlainText m) = Inr ()"
  by (simp add: handlePlainText_def seq_def emits_def)

lemma snd_try_catch_total:
  "(\<And>x. snd (handler x) = Inr ()) \<Longrightarrow> snd (try_catch m handler) = Inr ()"
  by (cases "snd m") (auto simp: try_catch_def)

lemma snd_handleMessage: "snd (handleMessage h now m) = Inr ()"
  unfolding handleMessage_def by (rule snd_try_catch_total) (rule snd_handlePlainText)

lemma snd_handleDataReceived: "snd (handleDataReceived h now e) = Inr ()"
proof -
  have "snd (try_catch m (\<lambda>error. emits [ConsoleError ''handleDataReceived failed''])) = Inr ()" for m
    by (rule snd_try_catch_total) (simp add: emits_def)
  then show ?thesis
    by (simp add: handleDataReceived_def Let_def seq_def emits_def)
qed

lemma dispatch_classify:
  assumes "json_parse h message = Inr j" and "build_eventInfo j now = Inr info"
  shows "dispatch h message j (ei_type info) = apply_event h message (classify h message)"
proof -
  obtain i0 where i0: "build_eventInfo j [] = Inr i0" and "info = i0\<lparr>ei_received_at := now\<rparr>"
    using assms(2) build_eventInfo_clock [of j now] by (auto split: sum.splits)
  then have "ei_type i0 = ei_type info" by simp
  then show ?thesis
    using assms(1) i0 by (simp add: classify_def dispatch_def apply_event_def)
qed

lemma classify_plain:
  "(\<exists>m. classify h message = PlainTextEvent m) \<longleftrightarrow>
     (\<forall>j. json_parse h message = Inr j \<longrightarrow> (\<exists>x. build_eventInfo j [] = Inl x))"
  by (auto simp: classify_def split: sum.splits if_splits)

lemma handleMessage_plain:
  assumes "classify h message = PlainTextEvent m"
  shows "handleMessage h now message = handlePlainText message"
proof (cases "json_parse h message")
  case (Inl x)
  then show ?thesis by (simp add: handleMessage_def eval_then_def try_catch_def)
next
  case (Inr j)
  then obtain x where "build_eventInfo j [] = Inl x"
    using assms classify_plain [of h message] by auto
  then have "build_eventInfo j now = Inl x"
    using build_eventInfo_clock [of j now] by simp
  then show ?thesis
    using Inr by (simp add: handleMessage_def handleParsed_def eval_then_def try_catch_def)
qed

lemma handleMessage_structured:
  assumes "json_parse h message = Inr j" and "build_eventInfo j now = Inr info"
  shows "handleMessage h now message =
           try_catch (seq (emits [ConsoleLog ''subtitles-recv: parsed'' None, PushDebugEvent info])
                        (apply_event h message (classify h message)))
             (\<lambda>parseError. handlePlainText message)"
  using assms dispatch_classify [OF assms]
  by (simp add: handleMessage_def handleParsed_def eval_then_def)

lemma try_catch_seq_emits:
  "try_catch (seq (emits as) m) handler = (as @ fst (try_catch m handler), snd (try_catch m handler))"
  by (cases "snd m") (auto simp: try_catch_def seq_def emits_def)

lemma try_catch_total: "snd m = Inr () \<Longrightarrow> try_catch m handler = m"
  by (simp add: try_catch_def)

lemma classify_plain_message: "classify h message = PlainTextEvent m \<Longrightarrow> m = message"
  by (auto simp: classify_def split: sum.splits if_splits)

lemma fst_handleDataReceived_decoded:
  assumes "text_decode h (payload e) = Inr message"
  shows "fst (handleDataReceived h now e) =
           [ConsoleLog ''handleDataReceived'' (map_option identity (participant e)),
            ConsoleLog ''handleDataReceived: participant'' (map_option identity (participant e)),
            ConsoleLog ''handleDataReceived: payload length'' None,
            ConsoleLog ''subtitles-recv: message'' (map_option identity (participant e))]
           @ fst (handleMessage h now message)"
  using assms snd_handleMessage [of h now message]
  by (simp add: handleDataReceived_def Let_def seq_def emits_def eval_then_def try_catch_def)

lemma fst_handleDataReceived_failed:
  assumes "text_decode h (payload e) = Inl x"
  shows "fst (handleDataReceived h now e) =
           [ConsoleLog ''handleDataReceived'' (map_option identity (participant e)),
            ConsoleLog ''handleDataReceived: participant'' (map_option identity (participant e)),
            ConsoleLog ''handleDataReceived: payload length'' None,
            ConsoleError ''handleDataReceived failed'']"
  using assms
  by (simp add: handleDataReceived_def Let_def seq_def emits_def eval_then_def try_catch_def)

lemma caption_setters_handleMessage:
  "filter is_caption_setter (fst (handleMessage h now message)) =
   filter is_caption_setter
     (fst (try_catch (apply_event h message (classify h message)) (\<lambda>x. handlePlainText message)))"
proof (cases "\<exists>m. classify h message = PlainTextEvent m")
  case True
  then obtain m where m: "classify h message = PlainTextEvent m" by blast
  then have "m = message" by (rule classify_plain_message)
  then show ?thesis
    using m handleMessage_plain [OF m, of now]
    by (simp add: apply_event_def try_catch_total snd_handlePlainText)
next
  case False
  then obtain j x where j: "json_parse h message = Inr j" and "build_eventInfo j [] \<noteq> Inl x"
    using classify_plain [of h message] by blast
  obtain i0 where "build_eventInfo j [] = Inr i0"
    using False j classify_plain [of h message] by (cases "build_eventInfo j []") auto
  then have "build_eventInfo j now = Inr (i0\<lparr>ei_received_at := now\<rparr>)"
    using build_eventInfo_clock [of j now] by simp
  then show ?thesis
    using handleMessage_structured [OF j] by (simp add: try_catch_seq_emits)
qed

lemma caption_setters_handleDataReceived:
  "filter is_caption_setter (fst (handleDataReceived h now e)) =
     (case text_decode h (payload e) of
        Inl x \<Rightarrow> []
      | Inr message \<Rightarrow>
          filter is_caption_setter
            (fst (try_catch (apply_event h message (classify h message))
                    (\<lambda>x. handlePlainText message))))"
  by (cases "text_decode h (payload e)")
     (simp_all add: fst_handleDataReceived_decoded fst_handleDataReceived_failed
        caption_setters_handleMessage)

lemma caption_apply_action:
  "caption s = caption s' \<Longrightarrow>
   caption (apply_action a s) = (if is_caption_setter a then caption (apply_action a s') else caption s')"
  by (cases a) (auto simp: caption_def)

lemma caption_run_filter:
  "caption s = caption s' \<Longrightarrow> caption (run as s) = caption (run (filter is_caption_setter as) s')"
proof (induction as arbitrary: s s')
  case Nil
  then show ?case by (simp add: run_Nil)
next
  case (Cons a as)
  show ?case
  proof (cases "is_caption_setter a")
    case True
    then have "caption (apply_action a s) = caption (apply_action a s')"
      using caption_apply_action [OF Cons.prems, of a] by simp
    then show ?thesis using True Cons.IH by (simp add: run_Cons)
  next
    case False
    then have "caption (apply_action a s) = caption s'"
      using caption_apply_action [OF Cons.prems, of a] by simp
    then show ?thesis using False Cons.IH by (simp add: run_Cons)
  qed
qed

section \<open>Concrete runs\<close>

lemmas example_defs = example_host_def table_host_def ascii_decode_def ascii_bytes_def
  ping_message_def ping_json_def hello_message_def ping_event_def hello_event_def str_simps

lemma ping_decoded: "text_decode example_host (payload (ping_event who)) = Inr (str ping_message)"
  by (simp add: example_defs)

lemma ping_parsed: "json_parse example_host (str ping_message) = Inr ping_json"
  by (simp add: example_defs)

lemma ping_info: "build_eventInfo ping_json now =
  Inr \<lparr> ei_type = Some (JStr (str ''ping'')), ei_text = str ''undefined'', ei_chunk = None, ei_is_final = None,
                ei_source_language = None, ei_target_language = None, ei_confidence = None,
                ei_timestamp = None, ei_received_at = now \<rparr>"
  by (simp add: build_eventInfo_def ping_json_def optional_preview_def str_simps)

lemma ping_classified: "classify example_host (str ping_message) = UnknownEvent ping_json"
  by (simp add: classify_def ping_parsed ping_info strict_eq_str_def str_simps)

lemma ping_unknown: "handleUnknown example_host m ping_json = ([ConsoleLog ''subtitles-recv: unknown type'' None, SetSubtitle m], Inr ())"
  by (simp add: handleUnknown_def ping_json_def seq_def emits_def eval_then_def str_simps)

lemma hello_decoded: "text_decode example_host (payload hello_event) = Inr (str hello_message)"
  by (simp add: example_defs)

lemma hello_classified: "classify example_host (str hello_message) = PlainTextEvent (str hello_message)"
  by (simp add: classify_def example_defs)

lemma hello_plain: "handlePlainText (str hello_message) =
   ([ConsoleLog ''subtitles-recv: plain text'' None, SetSubtitle (str hello_message)], Inr ())"
  by (simp add: handlePlainText_def seq_def emits_def hello_message_def str_simps trim_def is_js_space_def)

lemma ping_actions:
  "fst (handleDataReceived example_host (str ''t0'') (ping_event None)) =
      [ConsoleLog ''handleDataReceived'' None,
       ConsoleLog ''handleDataReceived: participant'' None,
       ConsoleLog ''handleDataReceived: payload length'' None,
       ConsoleLog ''subtitles-recv: message'' None,
       ConsoleLog ''subtitles-recv: parsed'' None,
       PushDebugEvent \<lparr> ei_type = Some (JStr (str ''ping'')), ei_text = str ''undefined'', ei_chunk = None, ei_is_final = None,
                ei_source_language = None, ei_target_language = None, ei_confidence = None,
                ei_timestamp = None, ei_received_at = str ''t0'' \<rparr>,
       ConsoleLog ''subtitles-recv: unknown type'' None,
       SetSubtitle (str ping_message)]"
proof -
  have who: "map_option identity (participant (ping_event None)) = None"
    by (simp add: ping_event_def)
  have "handleMessage example_host (str ''t0'') (str ping_message) =
      ([ConsoleLog ''subtitles-recv: parsed'' None,
        PushDebugEvent \<lparr> ei_type = Some (JStr (str ''ping'')), ei_text = str ''undefined'', ei_chunk = None, ei_is_final = None,
              ei_source_language = None, ei_target_language = None, ei_confidence = None,
              ei_timestamp = None, ei_received_at = str ''t0'' \<rparr>,
        ConsoleLog ''subtitles-recv: unknown type'' None,
        SetSubtitle (str ping_message)], Inr ())"
    using handleMessage_structured [OF ping_parsed ping_info, of "str ''t0''"]
    by (simp add: ping_classified apply_event_def ping_unknown try_catch_def seq_def emits_def)
  then show ?thesis
    using fst_handleDataReceived_decoded [OF ping_decoded [of None], of "str ''t0''"] who
    by simp
qed

section \<open>Decoding and classification\<close>

text \<open>
  Claim C7. For every payload, whatever the decoder and the parser of the host do with
  it, the data handler returns normally: every exception is caught inside it. What it
  does to the caption state is what one classified event does: nothing when the decoder
  throws, and otherwise the setters of the handler that the classification of the decoded
  message selects (with the source's fallback to the plain-text branch when that handler
  throws). The classification is a function of the decoded message alone, so decoding the
  same payload again yields the same event.
\<close>

theorem decode_total:
  "snd (handleDataReceived h now e) = Inr () \<and>
   filter is_caption_setter (fst (handleDataReceived h now e)) =
     (case text_decode h (payload e) of
        Inl x \<Rightarrow> []
      | Inr message \<Rightarrow>
          filter is_caption_setter
            (fst (try_catch (apply_event h message (classify h message))
                    (\<lambda>x. handlePlainText message))))"
  by (simp add: snd_handleDataReceived caption_setters_handleDataReceived)

theorem decode_total_witness:
  "snd (handleDataReceived example_host (str ''t0'') (ping_event None)) = Inr () \<and>
   filter is_caption_setter (fst (handleDataReceived example_host (str ''t0'') (ping_event None)))
     = [SetSubtitle (str ping_message)]"
  using decode_total [of example_host "str ''t0''" "ping_event None"]
  by (simp add: ping_decoded ping_classified apply_event_def ping_unknown try_catch_def)

text \<open>
  Claim C10. Two runs of the data handler from the same state on events with the same
  payload leave the same caption state, whatever the senders and the clock readings are.
\<close>

theorem sender_independent:
  assumes "payload e1 = payload e2"
  shows "caption (run (fst (handleDataReceived h now1 e1)) s) =
         caption (run (fst (handleDataReceived h now2 e2)) s)"
proof -
  have "filter is_caption_setter (fst (handleDataReceived h now1 e1)) =
        filter is_caption_setter (fst (handleDataReceived h now2 e2))"
    using assms by (simp add: caption_setters_handleDataReceived)
  then show ?thesis
    using caption_run_filter [of s s "fst (handleDataReceived h now1 e1)"]
          caption_run_filter [of s s "fst (handleDataReceived h now2 e2)"]
    by simp
qed

theorem sender_independent_witness:
  "payload (ping_event (Some (str ''translator-42''))) = payload (ping_event (Some (str ''listener-7'')))
   \<and> participant (ping_event (Some (str ''translator-42''))) \<noteq> participant (ping_event (Some (str ''listener-7'')))
   \<and> caption (run (fst (handleDataReceived example_host (str ''t0'') (ping_event (Some (str ''translator-42''))))) initial_state)
     = caption (run (fst (handleDataReceived example_host (str ''t1'') (ping_event (Some (str ''listener-7''))))) initial_state)"
proof -
  have p: "payload (ping_event (Some (str ''translator-42''))) = payload (ping_event (Some (str ''listener-7'')))"
    by (simp add: ping_event_def)
  have q: "participant (ping_event (Some (str ''translator-42''))) \<noteq> participant (ping_event (Some (str ''listener-7'')))"
    by (simp add: ping_event_def str_simps)
  show ?thesis
    using sender_independent [OF p, of example_host "str ''t0''" initial_state "str ''t1''"] p q
    by simp
qed

section \<open>Unrecognised types\<close>

text \<open>
  Claim C5, as stated, fails: a structured payload of an unrecognised type that carries
  no text is not ignored. The handler displays the raw message.
\<close>

theorem unknown_event_counterexample:
  "get_prop ping_json (str ''text'') = Inr None \<and>
   classify example_host (str ping_message) = UnknownEvent ping_json \<and>
   subtitle (run (fst (handleDataReceived example_host (str ''t0'') (ping_event None))) initial_state)
     = str ping_message \<and>
   run (fst (handleDataReceived example_host (str ''t0'') (ping_event None))) initial_state
     \<noteq> initial_state"
proof -
  have sub: "subtitle (run (fst (handleDataReceived example_host (str ''t0'') (ping_event None))) initial_state)
     = str ping_message"
    by (simp add: ping_actions run_Cons run_Nil)
  have "subtitle initial_state \<noteq> str ping_message"
    by (simp add: initial_state_def ping_message_def str_simps)
  then have "run (fst (handleDataReceived example_host (str ''t0'') (ping_event None))) initial_state
     \<noteq> initial_state" using sub by metis
  then show ?thesis using sub ping_classified by (simp add: ping_json_def str_simps)
qed

text \<open>
  Claim C5, amended. For a structured payload whose type is none of the four recognised
  values and whose text is a string, null or missing: the text is displayed when it is
  a string that is not empty after trimming, and the raw message is displayed otherwise.
  The partial and the final text are unchanged, and the handler returns normally.
\<close>

theorem unknown_event_applied:
  assumes "text_decode h (payload e) = Inr message"
      and "json_parse h message = Inr jsonData"
      and "get_prop jsonData (str ''type'') = Inr ty"
      and "\<not> recognized_type ty"
      and "get_prop jsonData (str ''text'') = Inr d"
      and "d = None \<or> d = Some JNull \<or> d = Some (JStr t)"
  shows "snd (handleDataReceived h now e) = Inr () \<and>
         caption (run (fst (handleDataReceived h now e)) s) =
           (if d = Some (JStr t) \<and> trim t \<noteq> [] then t else message,
            partialSubtitle s, finalSubtitle s)"
proof -
  have "\<exists>shown. optional_preview d = Inr shown"
    using assms(6) by (auto simp: optional_preview_def)
  then obtain info where info: "build_eventInfo jsonData [] = Inr info" and ty: "ei_type info = ty"
    using assms(3,5) by (cases jsonData) (auto simp: build_eventInfo_def)
  have cls: "classify h message = UnknownEvent jsonData"
    using assms(2,4) info ty by (simp add: classify_def recognized_type_def)
  have trim_empty: "trim [] = []" by (simp add: trim_def)
  have unk: "handleUnknown h message jsonData =
       ([ConsoleLog ''subtitles-recv: unknown type'' None,
         SetSubtitle (if d = Some (JStr t) \<and> trim t \<noteq> [] then t else message)], Inr ())"
    using assms(5,6) trim_empty
    by (auto simp: handleUnknown_def seq_def emits_def eval_then_def or_default_def string_receiver_def)
  have "filter is_caption_setter (fst (handleDataReceived h now e)) =
        [SetSubtitle (if d = Some (JStr t) \<and> trim t \<noteq> [] then t else message)]"
    using assms(1) cls unk
    by (simp add: caption_setters_handleDataReceived apply_event_def try_catch_def)
  then have "caption (run (fst (handleDataReceived h now e)) s) =
             caption (run [SetSubtitle (if d = Some (JStr t) \<and> trim t \<noteq> [] then t else message)] s)"
    using caption_run_filter [of s s "fst (handleDataReceived h now e)"] by simp
  then show ?thesis
    by (simp add: snd_handleDataReceived run_Cons run_Nil caption_def)
qed

theorem unknown_event_applied_witness:
  "text_decode example_host (payload (ping_event None)) = Inr (str ping_message)
   \<and> json_parse example_host (str ping_message) = Inr ping_json
   \<and> get_prop ping_json (str ''type'') = Inr (Some (JStr (str ''ping'')))
   \<and> \<not> recognized_type (Some (JStr (str ''ping'')))
   \<and> get_prop ping_json (str ''text'') = Inr None
   \<and> caption (run (fst (handleDataReceived example_host (str ''t0'') (ping_event None)))
         (initial_state\<lparr>partialSubtitle := str ''p'', finalSubtitle := str ''f''\<rparr>))
       = (str ping_message, str ''p'', str ''f'')"
proof -
  have a: "get_prop ping_json (str ''type'') = Inr (Some (JStr (str ''ping'')))"
    by (simp add: ping_json_def)
  have b: "\<not> recognized_type (Some (JStr (str ''ping'')))"
    by (simp add: recognized_type_def strict_eq_str_def str_simps)
  have c: "get_prop ping_json (str ''text'') = Inr None"
    by (simp add: ping_json_def str_simps)
  have d: "(None :: json option) = None \<or> None = Some JNull \<or> None = Some (JStr [])" by simp
  show ?thesis
    using unknown_event_applied [OF ping_decoded ping_parsed a b c d,
        where now = "str ''t0''"
          and s = "initial_state\<lparr>partialSubtitle := str ''p'', finalSubtitle := str ''f''\<rparr>"]
      ping_decoded [of None] ping_parsed a b c
    by simp
qed

section \<open>The order of the stages\<close>

lemma no_trace_insert_apply_event:
  "filter is_trace_insert (fst (apply_event h message ev)) = []"
proof (cases ev)
  case (TranslationStreamEvent data)
  then show ?thesis
    by (auto simp: apply_event_def handleTranslationStream_def eval_then_def seq_def emits_def
        Let_def split: sum.splits)
next
  case (TranslationEvent data)
  then show ?thesis
    by (auto simp: apply_event_def handleTranslation_def eval_then_def seq_def emits_def
        Let_def split: sum.splits)
next
  case (TranscriptEvent data)
  then show ?thesis
    by (auto simp: apply_event_def handleTranscript_def eval_then_def seq_def emits_def
        Let_def split: sum.splits)
next
  case (TranslationStatusEvent data)
  then show ?thesis
    by (auto simp: apply_event_def handleTranslationStatus_def eval_then_def seq_def emits_def
        Let_def split: sum.splits)
next
  case (UnknownEvent data)
  then show ?thesis
    by (auto simp: apply_event_def handleUnknown_def eval_then_def seq_def emits_def
        Let_def split: sum.splits)
next
  case (PlainTextEvent m)
  then show ?thesis
    by (auto simp: apply_event_def handlePlainText_def seq_def emits_def)
qed

lemma no_trace_insert_plain: "filter is_trace_insert (fst (handlePlainText m)) = []"
  by (auto simp: handlePlainText_def seq_def emits_def)

lemma fst_try_catch:
  "fst (try_catch m handler) =
     fst m @ (case snd m of Inl x \<Rightarrow> fst (handler x) | Inr u \<Rightarrow> [])"
  by (cases "snd m") (auto simp: try_catch_def)

lemma no_trace_insert_applied:
  "filter is_trace_insert
     (fst (try_catch (apply_event h message ev) (\<lambda>x. handlePlainText message))) = []"
  by (cases "snd (apply_event h message ev)")
     (simp_all add: fst_try_catch no_trace_insert_apply_event no_trace_insert_plain)

lemma build_eventInfo_fails_iff:
  "(\<exists>x. build_eventInfo j now = Inl x) \<longleftrightarrow>
     j = JNull \<or>
     (\<exists>v. get_prop j (str ''text'') = Inr (Some v) \<and> v \<noteq> JNull \<and> (\<forall>t. v \<noteq> JStr t))"
proof (cases j)
  case JNull
  then show ?thesis by (simp add: build_eventInfo_def)
next
  case (JObj kvs)
  show ?thesis
  proof (cases "map_of kvs (str ''text'')")
    case None
    then show ?thesis using JObj by (simp add: build_eventInfo_def optional_preview_def)
  next
    case (Some v)
    then show ?thesis using JObj
      by (cases v) (simp_all add: build_eventInfo_def optional_preview_def)
  qed
qed (simp_all add: build_eventInfo_def optional_preview_def)

lemma handleMessage_unparsed:
  "json_parse h message = Inl x \<Longrightarrow> handleMessage h now message = handlePlainText message"
  by (simp add: handleMessage_def eval_then_def try_catch_def)

lemma handleMessage_untraced:
  "json_parse h message = Inr j \<Longrightarrow> build_eventInfo j now = Inl x
   \<Longrightarrow> handleMessage h now message = handlePlainText message"
  by (simp add: handleMessage_def handleParsed_def eval_then_def try_catch_def)

lemma handleMessage_traced:
  assumes "json_parse h message = Inr j" and "build_eventInfo j now = Inr info"
  shows "handleMessage h now message =
           try_catch (seq (emits [ConsoleLog ''subtitles-recv: parsed'' None, PushDebugEvent info])
                        (dispatch h message j (ei_type info)))
             (\<lambda>parseError. handlePlainText message)"
  using assms by (simp add: handleMessage_def handleParsed_def eval_then_def)

lemma no_trace_insert_dispatched:
  assumes "json_parse h message = Inr j" and "build_eventInfo j now = Inr info"
  shows "filter is_trace_insert
           (fst (try_catch (dispatch h message j (ei_type info)) (\<lambda>x. handlePlainText message))) = []"
  using no_trace_insert_applied [of h message "classify h message"] dispatch_classify [OF assms]
  by simp

lemma null_untraced:
  "json_parse null_host (str null_message) = Inr JNull
   \<and> filter is_trace_insert
        (fst (handleDataReceived null_host (str ''t0'') (ascii_event null_message))) = []
   \<and> filter is_caption_setter
        (fst (handleDataReceived null_host (str ''t0'') (ascii_event null_message)))
       = [SetSubtitle (str null_message)]"
proof -
  have dec: "text_decode null_host (payload (ascii_event null_message)) = Inr (str null_message)"
    by (simp add: null_host_def table_host_def ascii_decode_def ascii_bytes_def ascii_event_def
        null_message_def str_simps)
  have parsed: "json_parse null_host (str null_message) = Inr JNull"
    by (simp add: null_host_def table_host_def)
  have "build_eventInfo JNull (str ''t0'') = Inl TypeError"
    by (simp add: build_eventInfo_def)
  then have hm: "handleMessage null_host (str ''t0'') (str null_message)
                   = handlePlainText (str null_message)"
    using parsed by (rule handleMessage_untraced [rotated])
  have plain: "handlePlainText (str null_message) =
     ([ConsoleLog ''subtitles-recv: plain text'' None, SetSubtitle (str null_message)], Inr ())"
    by (simp add: handlePlainText_def seq_def emits_def null_message_def str_simps trim_def
        is_js_space_def)
  show ?thesis
    using parsed by (simp add: fst_handleDataReceived_decoded [OF dec] hm plain)
qed

text \<open>
  Claim C6, as stated, fails: a payload that is not structured data is decoded and
  displayed, and never reaches the event history; for a payload that is structured data
  the history insert comes before the caption setter, not after it; and a payload that
  parses to the JSON value null is displayed as plain text without reaching the history.
\<close>

theorem stage_order_counterexample:
  "filter is_trace_insert (fst (handleDataReceived example_host (str ''t0'') hello_event)) = []
   \<and> debugEvents (run (fst (handleDataReceived example_host (str ''t0'') hello_event)) initial_state) = []
   \<and> subtitle (run (fst (handleDataReceived example_host (str ''t0'') hello_event)) initial_state)
       = str hello_message
   \<and> filter (\<lambda>a. is_trace_insert a \<or> is_caption_setter a)
         (fst (handleDataReceived example_host (str ''t0'') (ping_event None)))
       = [PushDebugEvent \<lparr> ei_type = Some (JStr (str ''ping'')), ei_text = str ''undefined'',
                            ei_chunk = None, ei_is_final = None, ei_source_language = None,
                            ei_target_language = None, ei_confidence = None,
                            ei_timestamp = None, ei_received_at = str ''t0'' \<rparr>,
          SetSubtitle (str ping_message)]
   \<and> json_parse null_host (str null_message) = Inr JNull
   \<and> filter is_trace_insert
        (fst (handleDataReceived null_host (str ''t0'') (ascii_event null_message))) = []
   \<and> filter is_caption_setter
        (fst (handleDataReceived null_host (str ''t0'') (ascii_event null_message)))
       = [SetSubtitle (str null_message)]"
proof -
  have order: "filter (\<lambda>a. is_trace_insert a \<or> is_caption_setter a)
         (fst (handleDataReceived example_host (str ''t0'') (ping_event None)))
       = [PushDebugEvent \<lparr> ei_type = Some (JStr (str ''ping'')), ei_text = str ''undefined'',
                            ei_chunk = None, ei_is_final = None, ei_source_language = None,
                            ei_target_language = None, ei_confidence = None,
                            ei_timestamp = None, ei_received_at = str ''t0'' \<rparr>,
          SetSubtitle (str ping_message)]"
    by (simp add: ping_actions)
  have "handleMessage example_host (str ''t0'') (str hello_message) = handlePlainText (str hello_message)"
    using hello_classified by (rule handleMessage_plain)
  then have "fst (handleDataReceived example_host (str ''t0'') hello_event) =
      [ConsoleLog ''handleDataReceived'' None,
       ConsoleLog ''handleDataReceived: participant'' None,
       ConsoleLog ''handleDataReceived: payload length'' None,
       ConsoleLog ''subtitles-recv: message'' None,
       ConsoleLog ''subtitles-recv: plain text'' None,
       SetSubtitle (str hello_message)]"
    using fst_handleDataReceived_decoded [OF hello_decoded, of "str ''t0''"]
    by (simp add: hello_plain hello_event_def)
  then show ?thesis
    using order null_untraced by (simp add: run_Cons run_Nil initial_state_def)
qed

text \<open>
  Claim C6, amended. Every payload the decoder accepts is handled within the one call.
  It is inserted into the event history exactly when the parser accepts the message and
  the object literal of lines 487-497 builds, which fails exactly when the parsed value is
  null or its text is neither a string nor null. A payload that is inserted is inserted
  once, before any caption setter runs, and is then applied through the dispatch on its
  type: the order is decode, history insert, caption apply. A payload that is not
  inserted (the parser rejects it, or the literal throws) is applied by the plain-text
  branch.
\<close>

theorem stage_order:
  assumes "text_decode h (payload e) = Inr message"
  shows "(\<forall>x. json_parse h message = Inl x \<longrightarrow>
            filter is_trace_insert (fst (handleDataReceived h now e)) = [] \<and>
            filter is_caption_setter (fst (handleDataReceived h now e)) =
              filter is_caption_setter (fst (handlePlainText message)))
       \<and> (\<forall>j x. json_parse h message = Inr j \<and> build_eventInfo j now = Inl x \<longrightarrow>
            filter is_trace_insert (fst (handleDataReceived h now e)) = [] \<and>
            filter is_caption_setter (fst (handleDataReceived h now e)) =
              filter is_caption_setter (fst (handlePlainText message)))
       \<and> (\<forall>j info. json_parse h message = Inr j \<and> build_eventInfo j now = Inr info \<longrightarrow>
            (\<exists>before after.
               fst (handleDataReceived h now e) = before @ PushDebugEvent info # after \<and>
               filter is_caption_setter before = [] \<and>
               filter is_trace_insert before = [] \<and>
               filter is_trace_insert after = [] \<and>
               filter is_caption_setter after =
                 filter is_caption_setter
                   (fst (try_catch (dispatch h message j (ei_type info))
                           (\<lambda>x. handlePlainText message)))))
       \<and> (\<forall>j. (\<exists>x. build_eventInfo j now = Inl x) \<longleftrightarrow>
              j = JNull \<or>
              (\<exists>v. get_prop j (str ''text'') = Inr (Some v) \<and> v \<noteq> JNull \<and> (\<forall>t. v \<noteq> JStr t)))"
proof (intro conjI allI impI)
  fix x
  assume "json_parse h message = Inl x"
  then have hm: "handleMessage h now message = handlePlainText message"
    by (rule handleMessage_unparsed)
  show "filter is_trace_insert (fst (handleDataReceived h now e)) = []"
    by (simp add: fst_handleDataReceived_decoded [OF assms] hm no_trace_insert_plain)
  show "filter is_caption_setter (fst (handleDataReceived h now e)) =
        filter is_caption_setter (fst (handlePlainText message))"
    by (simp add: fst_handleDataReceived_decoded [OF assms] hm)
next
  fix j x
  assume "json_parse h message = Inr j \<and> build_eventInfo j now = Inl x"
  then have hm: "handleMessage h now message = handlePlainText message"
    using handleMessage_untraced by blast
  show "filter is_trace_insert (fst (handleDataReceived h now e)) = []"
    by (simp add: fst_handleDataReceived_decoded [OF assms] hm no_trace_insert_plain)
  show "filter is_caption_setter (fst (handleDataReceived h now e)) =
        filter is_caption_setter (fst (handlePlainText message))"
    by (simp add: fst_handleDataReceived_decoded [OF assms] hm)
next
  fix j info
  assume a: "json_parse h message = Inr j \<and> build_eventInfo j now = Inr info"
  then have j: "json_parse h message = Inr j" and info: "build_eventInfo j now = Inr info"
    by simp_all
  let ?applied = "try_catch (dispatch h message j (ei_type info)) (\<lambda>x. handlePlainText message)"
  let ?before = "[ConsoleLog ''handleDataReceived'' (map_option identity (participant e)),
            ConsoleLog ''handleDataReceived: participant'' (map_option identity (participant e)),
            ConsoleLog ''handleDataReceived: payload length'' None,
            ConsoleLog ''subtitles-recv: message'' (map_option identity (participant e)),
            ConsoleLog ''subtitles-recv: parsed'' None]"
  have "fst (handleDataReceived h now e) = ?before @ PushDebugEvent info # fst ?applied"
    using handleMessage_traced [OF j info]
    by (simp add: fst_handleDataReceived_decoded [OF assms] try_catch_seq_emits)
  moreover have "filter is_caption_setter ?before = []" by simp
  moreover have "filter is_trace_insert ?before = []" by simp
  moreover have "filter is_trace_insert (fst ?applied) = []"
    using j info by (rule no_trace_insert_dispatched)
  ultimately show "\<exists>before after.
               fst (handleDataReceived h now e) = before @ PushDebugEvent info # after \<and>
               filter is_caption_setter before = [] \<and>
               filter is_trace_insert before = [] \<and>
               filter is_trace_insert after = [] \<and>
               filter is_caption_setter after =
                 filter is_caption_setter
                   (fst (try_catch (dispatch h message j (ei_type info))
                           (\<lambda>x. handlePlainText message)))"
    by blast
next
  fix j
  show "(\<exists>x. build_eventInfo j now = Inl x) \<longleftrightarrow>
              j = JNull \<or>
              (\<exists>v. get_prop j (str ''text'') = Inr (Some v) \<and> v \<noteq> JNull \<and> (\<forall>t. v \<noteq> JStr t))"
    by (rule build_eventInfo_fails_iff)
qed

theorem stage_order_witness:
  "text_decode example_host (payload (ping_event None)) = Inr (str ping_message)
   \<and> json_parse example_host (str ping_message) = Inr ping_json
   \<and> (\<exists>info before after.
         build_eventInfo ping_json (str ''t0'') = Inr info
         \<and> fst (handleDataReceived example_host (str ''t0'') (ping_event None))
           = before @ PushDebugEvent info # after
         \<and> filter is_caption_setter before = []
         \<and> filter is_trace_insert after = []
         \<and> filter is_caption_setter after = [SetSubtitle (str ping_message)])"
proof -
  let ?info = "\<lparr> ei_type = Some (JStr (str ''ping'')), ei_text = str ''undefined'',
                  ei_chunk = None, ei_is_final = None, ei_source_language = None,
                  ei_target_language = None, ei_confidence = None,
                  ei_timestamp = None, ei_received_at = str ''t0'' \<rparr>"
  have info: "build_eventInfo ping_json (str ''t0'') = Inr ?info"
    by (rule ping_info)
  have ap: "filter is_caption_setter
              (fst (try_catch (dispatch example_host (str ping_message) ping_json (ei_type ?info))
                      (\<lambda>x. handlePlainText (str ping_message))))
            = [SetSubtitle (str ping_message)]"
    by (simp add: dispatch_def strict_eq_str_def ping_unknown try_catch_def str_simps)
  note traced = stage_order [OF ping_decoded [of None], of "str ''t0''",
      THEN conjunct2, THEN conjunct2, THEN conjunct1, rule_format, OF conjI, OF ping_parsed info]
  then obtain before after where
      "fst (handleDataReceived example_host (str ''t0'') (ping_event None))
         = before @ PushDebugEvent ?info # after"
      "filter is_caption_setter before = []"
      "filter is_trace_insert after = []"
      "filter is_caption_setter after =
         filter is_caption_setter
           (fst (try_catch (dispatch example_host (str ping_message) ping_json (ei_type ?info))
                   (\<lambda>x. handlePlainText (str ping_message))))"
    by blast
  then have "build_eventInfo ping_json (str ''t0'') = Inr ?info
         \<and> fst (handleDataReceived example_host (str ''t0'') (ping_event None))
           = before @ PushDebugEvent ?info # after
         \<and> filter is_caption_setter before = []
         \<and> filter is_trace_insert after = []
         \<and> filter is_caption_setter after = [SetSubtitle (str ping_message)]"
    using info ap by simp
  then show ?thesis
    using ping_decoded [of None] ping_parsed by blast
qed

section \<open>The caption invariant\<close>

lemma trim_Nil: "trim [] = []"
  by (simp add: trim_def)

lemma caption_inv_stream:
  "caption_inv s \<Longrightarrow> caption_inv (run (fst (handleTranslationStream h data)) s)"
  by (auto simp: handleTranslationStream_def eval_then_def seq_def emits_def Let_def
      run_Cons run_Nil caption_inv_def trim_Nil split: sum.splits)

lemma caption_inv_translation:
  "caption_inv s \<Longrightarrow> caption_inv (run (fst (handleTranslation h data)) s)"
  by (auto simp: handleTranslation_def eval_then_def seq_def emits_def Let_def
      run_Cons run_Nil caption_inv_def split: sum.splits)

lemma caption_inv_transcript:
  "caption_inv s \<Longrightarrow> caption_inv (run (fst (handleTranscript h data)) s)"
  by (auto simp: handleTranscript_def eval_then_def seq_def emits_def Let_def
      run_Cons run_Nil caption_inv_def split: sum.splits)

lemma caption_inv_caption: "caption s = caption s' \<Longrightarrow> caption_inv s = caption_inv s'"
  by (simp add: caption_def caption_inv_def)

lemma caption_receive_returning:
  assumes "text_decode h (payload e) = Inr message"
      and "snd (apply_event h message (classify h message)) = Inr ()"
  shows "caption (receive h (now, e) s) =
         caption (run (fst (apply_event h message (classify h message))) s)"
proof -
  have "filter is_caption_setter (fst (handleDataReceived h now e)) =
        filter is_caption_setter (fst (apply_event h message (classify h message)))"
    using assms by (simp add: caption_setters_handleDataReceived try_catch_total)
  then show ?thesis
    using caption_run_filter [of s s "fst (handleDataReceived h now e)"]
          caption_run_filter [of s s "fst (apply_event h message (classify h message))"]
    by (simp add: receive_def)
qed

lemma caption_inv_receive:
  assumes "caption_payload h e" and "caption_inv s"
  shows "caption_inv (receive h (now, e) s)"
proof -
  obtain message where dec: "text_decode h (payload e) = Inr message"
    using assms(1) by (cases "text_decode h (payload e)") (auto simp: caption_payload_def)
  have ret: "snd (apply_event h message (classify h message)) = Inr ()"
    using assms(1) dec
    by (cases "classify h message") (auto simp: caption_payload_def apply_event_def)
  have "caption_inv (run (fst (apply_event h message (classify h message))) s)"
    using assms dec
    by (cases "classify h message")
       (auto simp: caption_payload_def apply_event_def caption_inv_stream
          caption_inv_translation caption_inv_transcript)
  then show ?thesis
    using caption_inv_caption [OF caption_receive_returning [OF dec ret, of now s]] by simp
qed

lemma caption_inv_receive_all:
  "\<forall>arrival \<in> set arrivals. caption_payload h (snd arrival) \<Longrightarrow> caption_inv s
   \<Longrightarrow> caption_inv (receive_all h arrivals s)"
proof (induction arrivals arbitrary: s)
  case Nil
  then show ?case by (simp add: receive_all_def)
next
  case (Cons a arrivals)
  obtain now e where a: "a = (now, e)" by (cases a)
  have "caption_inv (receive h a s)"
    using Cons.prems a caption_inv_receive [of h e s now] by simp
  then have "caption_inv (receive_all h arrivals (receive h a s))"
    using Cons by simp
  then show ?case by (simp add: receive_all_def)
qed

lemmas stream_defs = stream_host_def table_host_def ascii_decode_def ascii_bytes_def
  ascii_event_def partial_message_def final_message_def str_simps

lemma partial_decoded:
  "text_decode stream_host (payload (ascii_event partial_message)) = Inr (str partial_message)"
  by (simp add: stream_defs)

lemma final_decoded:
  "text_decode stream_host (payload (ascii_event final_message)) = Inr (str final_message)"
  by (simp add: stream_defs)

lemma partial_parsed: "json_parse stream_host (str partial_message) = Inr partial_json"
  by (simp add: stream_defs)

lemma final_parsed: "json_parse stream_host (str final_message) = Inr final_json"
  by (simp add: stream_defs)

lemma partial_classified:
  "classify stream_host (str partial_message) = TranslationStreamEvent partial_json"
  by (simp add: classify_def partial_parsed build_eventInfo_def optional_preview_def
      partial_json_def strict_eq_str_def str_simps)

lemma final_classified:
  "classify stream_host (str final_message) = TranslationStreamEvent final_json"
  by (simp add: classify_def final_parsed build_eventInfo_def optional_preview_def
      final_json_def strict_eq_str_def str_simps)

lemma partial_stream:
  "handleTranslationStream h partial_json =
     ([ConsoleLog ''translation-stream'' None,
       SetPartialSubtitle (str ''hello''),
       SetSubtitle (str ''hello'' @ pending_indicator),
       ConsoleLog ''translation-stream: partial'' None], Inr ())"
  by (simp add: handleTranslationStream_def partial_json_def eval_then_def seq_def emits_def
      or_default_def string_receiver_def trim_def is_js_space_def str_simps)

lemma final_stream:
  "handleTranslationStream h final_json =
     ([ConsoleLog ''translation-stream'' None,
       SetFinalSubtitle (str ''hello there''),
       SetPartialSubtitle [],
       SetSubtitle (str ''hello there''),
       ConsoleLog ''translation-stream: final'' None], Inr ())"
  by (simp add: handleTranslationStream_def final_json_def eval_then_def seq_def emits_def
      or_default_def string_receiver_def trim_def is_js_space_def str_simps)

lemma transcript_fallback:
  "classify transcript_host (str transcript_message) = TranscriptEvent transcript_json
   \<and> snd (handleTranscript transcript_host transcript_json) = Inl TypeError
   \<and> caption (receive transcript_host (str ''t0'', ascii_event transcript_message) initial_state)
       = (str transcript_message, [], [])
   \<and> \<not> caption_inv (receive transcript_host (str ''t0'', ascii_event transcript_message)
                        initial_state)"
proof -
  have dec: "text_decode transcript_host (payload (ascii_event transcript_message))
               = Inr (str transcript_message)"
    by (simp add: transcript_host_def table_host_def ascii_decode_def ascii_bytes_def
        ascii_event_def transcript_message_def str_simps)
  have parsed: "json_parse transcript_host (str transcript_message) = Inr transcript_json"
    by (simp add: transcript_host_def table_host_def)
  have cls: "classify transcript_host (str transcript_message) = TranscriptEvent transcript_json"
    by (simp add: classify_def parsed build_eventInfo_def optional_preview_def
        transcript_json_def strict_eq_str_def str_simps)
  have thrown: "handleTranscript transcript_host transcript_json = ([], Inl TypeError)"
    by (simp add: handleTranscript_def transcript_json_def eval_then_def or_else_def
        or_default_def string_receiver_def str_simps)
  have plain: "handlePlainText (str transcript_message) =
     ([ConsoleLog ''subtitles-recv: plain text'' None, SetSubtitle (str transcript_message)], Inr ())"
    by (simp add: handlePlainText_def seq_def emits_def transcript_message_def str_simps trim_def
        is_js_space_def)
  have "filter is_caption_setter
          (fst (handleDataReceived transcript_host (str ''t0'') (ascii_event transcript_message)))
        = [SetSubtitle (str transcript_message)]"
    by (simp add: caption_setters_handleDataReceived dec cls apply_event_def thrown plain
        try_catch_def)
  then have cap: "caption (receive transcript_host (str ''t0'', ascii_event transcript_message)
                     initial_state) = (str transcript_message, [], [])"
    using caption_run_filter [of initial_state initial_state
        "fst (handleDataReceived transcript_host (str ''t0'') (ascii_event transcript_message))"]
    by (simp add: receive_def run_Cons run_Nil caption_def initial_state_def)
  then have "\<not> caption_inv (receive transcript_host (str ''t0'', ascii_event transcript_message)
                        initial_state)"
    by (simp add: caption_def caption_inv_def transcript_message_def str_simps)
  then show ?thesis using cls thrown cap by simp
qed

text \<open>
  Claim C2, as stated, fails: a status event applied to the empty caption state displays
  the status line while the partial and the final text are both empty, and a plain-text
  payload received in the empty state displays the message likewise, so the displayed
  text is none of the three values the invariant allows. The same happens for a transcript
  payload whose content is not a string: its handler throws and the inner catch displays
  the raw message.
\<close>

theorem caption_invariant_counterexample:
  "caption (run (fst (handleTranslationStatus example_host
                        (JObj [(str ''status'', JStr (str ''started''))]))) initial_state)
     = (status_prefix @ str ''started'', [], [])
   \<and> \<not> caption_inv (run (fst (handleTranslationStatus example_host
                               (JObj [(str ''status'', JStr (str ''started''))]))) initial_state)
   \<and> caption (receive example_host (str ''t0'', hello_event) initial_state)
     = (str hello_message, [], [])
   \<and> \<not> caption_inv (receive example_host (str ''t0'', hello_event) initial_state)
   \<and> classify transcript_host (str transcript_message) = TranscriptEvent transcript_json
   \<and> snd (handleTranscript transcript_host transcript_json) = Inl TypeError
   \<and> caption (receive transcript_host (str ''t0'', ascii_event transcript_message) initial_state)
       = (str transcript_message, [], [])
   \<and> \<not> caption_inv (receive transcript_host (str ''t0'', ascii_event transcript_message)
                        initial_state)"
proof -
  have status: "caption (run (fst (handleTranslationStatus example_host
                        (JObj [(str ''status'', JStr (str ''started''))]))) initial_state)
     = (status_prefix @ str ''started'', [], [])
   \<and> \<not> caption_inv (run (fst (handleTranslationStatus example_host
                               (JObj [(str ''status'', JStr (str ''started''))]))) initial_state)"
    by (simp add: caption_def handleTranslationStatus_def eval_then_def seq_def emits_def Let_def
        or_default_def strict_eq_str_def run_Cons run_Nil caption_inv_def initial_state_def
        status_prefix_def str_simps)
  have ret: "snd (apply_event example_host (str hello_message)
                    (classify example_host (str hello_message))) = Inr ()"
    by (simp add: hello_classified apply_event_def hello_plain)
  have plain: "caption (receive example_host (str ''t0'', hello_event) initial_state)
     = (str hello_message, [], [])"
    using caption_receive_returning [OF hello_decoded ret, of "str ''t0''" initial_state]
    by (simp add: hello_classified apply_event_def hello_plain run_Cons run_Nil caption_def
        initial_state_def)
  then have "\<not> caption_inv (receive example_host (str ''t0'', hello_event) initial_state)"
    by (simp add: caption_def caption_inv_def hello_message_def str_simps)
  then show ?thesis using status plain transcript_fallback by simp
qed

text \<open>
  Claim C2, amended. Take any sequence of arrivals handled by the data handler, each of
  them a payload that decodes, is dispatched to the translation-stream, the translation or
  the transcript handler, and whose handler returns without throwing. From the empty
  caption state (or from any state that satisfies the invariant) the state after the
  sequence satisfies it: the displayed text is the partial text followed by the pending
  indicator when the partial text is not empty, else the final text when that is not
  empty, else empty. Status, unknown-type and plain-text payloads are not covered, nor is
  a payload whose handler throws (the inner catch then displays the raw message): they
  overwrite the displayed text alone.
\<close>

theorem caption_invariant:
  assumes "\<forall>arrival \<in> set arrivals. caption_payload h (snd arrival)"
  shows "caption_inv (receive_all h arrivals initial_state)
         \<and> (caption_inv s \<longrightarrow> caption_inv (receive_all h arrivals s))"
proof -
  have "caption_inv initial_state" by (simp add: caption_inv_def initial_state_def)
  then show ?thesis using assms by (simp add: caption_inv_receive_all)
qed

theorem caption_invariant_witness:
  "caption_payload stream_host (ascii_event partial_message)
   \<and> caption_payload stream_host (ascii_event final_message)
   \<and> caption_inv (receive_all stream_host
         [(str ''t0'', ascii_event partial_message), (str ''t1'', ascii_event final_message)]
         initial_state)
   \<and> caption (receive_all stream_host [(str ''t0'', ascii_event partial_message)] initial_state)
       = (str ''hello'' @ pending_indicator, str ''hello'', [])
   \<and> caption (receive_all stream_host
         [(str ''t0'', ascii_event partial_message), (str ''t1'', ascii_event final_message)]
         initial_state)
       = (str ''hello there'', [], str ''hello there'')"
proof -
  have ok: "\<forall>arrival \<in> set [(str ''t0'', ascii_event partial_message),
                        (str ''t1'', ascii_event final_message)].
       caption_payload stream_host (snd arrival)"
    by (simp add: caption_payload_def partial_decoded final_decoded partial_classified
        final_classified partial_stream final_stream)
  have first: "caption (receive stream_host (str ''t0'', ascii_event partial_message) s)
       = (str ''hello'' @ pending_indicator, str ''hello'', finalSubtitle s)" for s
    using caption_receive_returning [OF partial_decoded, of "str ''t0''" s]
    by (simp add: partial_classified apply_event_def partial_stream run_Cons run_Nil caption_def)
  have second: "caption (receive stream_host (str ''t1'', ascii_event final_message) s)
       = (str ''hello there'', [], str ''hello there'')" for s
    using caption_receive_returning [OF final_decoded, of "str ''t1''" s]
    by (simp add: final_classified apply_event_def final_stream run_Cons run_Nil caption_def)
  have init: "finalSubtitle initial_state = []" by (simp add: initial_state_def)
  show ?thesis
    using caption_invariant [OF ok, of initial_state] ok first second init
    by (simp add: receive_all_def)
qed

section \<open>Agent discovery in the two clients\<close>

lemma take_length_prefix: "take (length sub) xs = sub \<longleftrightarrow> (\<exists>post. xs = sub @ post)"
proof
  assume "take (length sub) xs = sub"
  then have "xs = sub @ drop (length sub) xs" by (metis append_take_drop_id)
  then show "\<exists>post. xs = sub @ post" ..
next
  assume "\<exists>post. xs = sub @ post"
  then show "take (length sub) xs = sub" by auto
qed

lemma js_includes_iff: "js_includes s sub \<longleftrightarrow> (\<exists>pre post. s = pre @ sub @ post)"
proof (induction s)
  case Nil
  then show ?case by auto
next
  case (Cons c cs)
  show ?case
  proof
    assume "js_includes (c # cs) sub"
    then consider "take (length sub) (c # cs) = sub" | "js_includes cs sub" by auto
    then show "\<exists>pre post. c # cs = pre @ sub @ post"
    proof cases
      case 1
      then obtain post where "c # cs = sub @ post" using take_length_prefix by blast
      then have "c # cs = [] @ sub @ post" by simp
      then show ?thesis by blast
    next
      case 2
      then obtain pre post where "cs = pre @ sub @ post" using Cons.IH by blast
      then have "c # cs = (c # pre) @ sub @ post" by simp
      then show ?thesis by blast
    qed
  next
    assume "\<exists>pre post. c # cs = pre @ sub @ post"
    then obtain pre post where eq: "c # cs = pre @ sub @ post" by blast
    show "js_includes (c # cs) sub"
    proof (cases pre)
      case Nil
      then have "take (length sub) (c # cs) = sub" using eq take_length_prefix [of sub "c # cs"] by auto
      then show ?thesis by simp
    next
      case (Cons p ps)
      then have "cs = ps @ sub @ post" using eq by simp
      then have "js_includes cs sub" using Cons.IH by blast
      then show ?thesis by simp
    qed
  qed
qed

lemma agent_run_other:
  "\<forall>a \<in> set as. \<forall>p. a \<noteq> SetAgentParticipant p \<Longrightarrow> agentParticipant (run as s) = agentParticipant s"
proof (induction as arbitrary: s)
  case Nil
  then show ?case by (simp add: run_Nil)
next
  case (Cons a as)
  then have "agentParticipant (apply_action a s) = agentParticipant s"
    by (cases a) auto
  then show ?case using Cons by (simp add: run_Cons)
qed

lemma track_actions_leave_agent:
  "\<forall>a \<in> set (concat (map (\<lambda>pub. ConsoleLog ''existing agent track'' None #
                           (case pub_track pub of None \<Rightarrow> [] | Some t \<Rightarrow> handleTrackSubscribed t))
                       pubs)). \<forall>p. a \<noteq> SetAgentParticipant p"
  by (auto simp: handleTrackSubscribed_def split: option.splits if_splits)

lemma agent_after_join:
  "agentParticipant (run (handleParticipantConnected p) s) =
     (if js_includes (identity p) (str ''translator'') \<or> js_includes (identity p) (str ''agent'')
      then Some p else agentParticipant s)"
  using agent_run_other [OF track_actions_leave_agent, of "tracks p"]
  by (simp add: handleParticipantConnected_def run_Cons run_Nil run_append)

text \<open>
  Claim C9, as stated, fails in the Flutter client: an identity that contains agent but
  not translator is not taken as the translation agent there.
\<close>

theorem agent_discovery_counterexample:
  "js_includes (str ''agent-7'') (str ''agent'')
   \<and> fl_agent (handleParticipant_flutter \<lparr>identity = str ''agent-7'', tracks = []\<rparr>
                  \<lparr>fl_agent = None, fl_agentState = []\<rparr>) = None"
  by (simp add: handleParticipant_flutter_def str_simps)

text \<open>
  Claim C9, amended. In the web client a joining participant becomes the current agent
  exactly when its identity contains translator or agent as a substring, and otherwise
  the current agent is unchanged. In the Flutter client a joining participant becomes the
  current agent exactly when its identity contains translator. At the concrete inputs
  below, translator-42 becomes the current agent in both clients and listener-7 leaves
  the current agent unchanged.
\<close>

theorem agent_discovery:
  "agentParticipant (run (handleParticipantConnected p) s) =
     (if (\<exists>pre post. identity p = pre @ str ''translator'' @ post)
         \<or> (\<exists>pre post. identity p = pre @ str ''agent'' @ post)
      then Some p else agentParticipant s)
   \<and> fl_agent (handleParticipant_flutter p st) =
     (if (\<exists>pre post. identity p = pre @ str ''translator'' @ post)
      then Some p else fl_agent st)"
  by (simp add: agent_after_join handleParticipant_flutter_def js_includes_iff)

theorem agent_discovery_witness:
  "agentParticipant (run (handleParticipantConnected \<lparr>identity = str ''translator-42'', tracks = []\<rparr>) initial_state)
     = Some \<lparr>identity = str ''translator-42'', tracks = []\<rparr>
   \<and> agentParticipant (run (handleParticipantConnected \<lparr>identity = str ''listener-7'', tracks = []\<rparr>)
        (initial_state\<lparr>agentParticipant := Some \<lparr>identity = str ''translator-42'', tracks = []\<rparr>\<rparr>))
     = Some \<lparr>identity = str ''translator-42'', tracks = []\<rparr>
   \<and> fl_agent (handleParticipant_flutter \<lparr>identity = str ''translator-42'', tracks = []\<rparr>
                  \<lparr>fl_agent = None, fl_agentState = []\<rparr>)
     = Some \<lparr>identity = str ''translator-42'', tracks = []\<rparr>"
proof -
  have yes: "js_includes (str ''translator-42'') (str ''translator'')"
    by (simp add: str_simps)
  have no: "\<not> js_includes (str ''listener-7'') (str ''translator'')"
           "\<not> js_includes (str ''listener-7'') (str ''agent'')"
    by (simp_all add: str_simps)
  show ?thesis
    using agent_discovery [of "\<lparr>identity = str ''translator-42'', tracks = []\<rparr>" initial_state
                              "\<lparr>fl_agent = None, fl_agentState = []\<rparr>"]
          agent_discovery [of "\<lparr>identity = str ''listener-7'', tracks = []\<rparr>"
                              "initial_state\<lparr>agentParticipant := Some \<lparr>identity = str ''translator-42'', tracks = []\<rparr>\<rparr>"
                              "\<lparr>fl_agent = None, fl_agentState = []\<rparr>"]
          yes no
    unfolding js_includes_iff by simp
qed

section \<open>The start/stop control and its preconditions\<close>

lemma toggle_rpc_blocked:
  assumes "\<not> isConnected s \<or> roomRef = None \<or> agentParticipant s = None"
  shows "toggleTranslation_rpc rpc roomRef s = ([ConsoleError ''room not connected or no agent found''], Inr ())"
  using assms by (auto simp: toggleTranslation_rpc_def emits_def split: option.splits)

lemma toggle_rpc_sends:
  assumes "isConnected s" "roomRef \<noteq> None" "agentParticipant s \<noteq> None"
  shows "filter is_send (fst (toggleTranslation_rpc rpc roomRef s)) \<noteq> []"
  using assms
  by (auto simp: toggleTranslation_rpc_def seq_def emits_def try_catch_def rpc_call_def
      split: option.splits sum.splits)

lemma toggle_blocked:
  assumes "\<not> isConnected s \<or> roomRef = None"
  shows "toggleTranslation transport now roomRef s =
           ([ConsoleLog ''toggleTranslation clicked'' None,
             ConsoleLog ''toggleTranslation: isConnected'' None,
             ConsoleLog ''toggleTranslation: roomRef'' None,
             ConsoleError ''room not connected'', Alert ''connect to a room first''], Inr ())"
  using assms by (auto simp: toggleTranslation_def seq_def emits_def split: option.splits)

lemma toggle_sends_iff:
  "filter is_send (fst (toggleTranslation transport now roomRef s)) \<noteq> []
     \<longleftrightarrow> isConnected s \<and> mic_live roomRef"
  by (auto simp: toggleTranslation_def seq_def emits_def try_catch_def publishData_def
      mic_unavailable_def mic_live_def split: option.splits sum.splits)

text \<open>
  Claim C1, as stated, fails in the broadcast variant: connected, with a live microphone
  and no translation agent discovered, the control publishes the start command (and
  schedules the test message) and reports no precondition error.
\<close>

theorem toggle_counterexample:
  "agentParticipant (initial_state\<lparr>isConnected := True\<rparr>) = None
   \<and> filter is_send (fst (toggleTranslation (\<lambda>m. Inr ()) 1000 (Some live_room)
                            (initial_state\<lparr>isConnected := True\<rparr>)))
     = [PublishData \<lparr> cm_type = str ''translation_control'', cm_action = str ''start'',
                      cm_timestamp = 1000, cm_room = str ''Pryme-Korean'' \<rparr>,
        ScheduleTestMessage 2000]
   \<and> filter is_precondition_error (fst (toggleTranslation (\<lambda>m. Inr ()) 1000 (Some live_room)
                            (initial_state\<lparr>isConnected := True\<rparr>))) = []
   \<and> snd (toggleTranslation (\<lambda>m. Inr ()) 1000 (Some live_room)
                            (initial_state\<lparr>isConnected := True\<rparr>)) = Inr ()"
  by (simp add: toggleTranslation_def live_room_def initial_state_def seq_def emits_def
      try_catch_def publishData_def)

text \<open>
  Claim C1, amended. Broadcast variant (part_001): when the room is not connected or
  there is no room, the control reports the precondition error, sends nothing and leaves
  the state unchanged; it sends exactly when the room is connected and the microphone
  track is present and unmuted, whether or not an agent has been discovered. Request
  variant (part_002): when the room is not connected, there is no room or no agent has
  been discovered, the control only logs the precondition error; it issues its call
  exactly when the room is connected and an agent has been discovered.
\<close>

theorem toggle_precondition:
  "(\<not> isConnected s \<or> roomRef = None \<longrightarrow>
      filter is_send (fst (toggleTranslation transport now roomRef s)) = [] \<and>
      filter is_precondition_error (fst (toggleTranslation transport now roomRef s)) =
        [ConsoleError ''room not connected'', Alert ''connect to a room first''] \<and>
      run (fst (toggleTranslation transport now roomRef s)) s = s)
   \<and> (filter is_send (fst (toggleTranslation transport now roomRef s)) \<noteq> []
        \<longleftrightarrow> isConnected s \<and> mic_live roomRef)
   \<and> (\<not> isConnected s \<or> roomRef = None \<or> agentParticipant s = None \<longrightarrow>
        toggleTranslation_rpc rpc roomRef s =
          ([ConsoleError ''room not connected or no agent found''], Inr ()))
   \<and> (filter is_send (fst (toggleTranslation_rpc rpc roomRef s)) \<noteq> []
        \<longleftrightarrow> isConnected s \<and> roomRef \<noteq> None \<and> agentParticipant s \<noteq> None)"
proof (intro conjI impI)
  assume b: "\<not> isConnected s \<or> roomRef = None"
  show "filter is_send (fst (toggleTranslation transport now roomRef s)) = []"
    by (simp add: toggle_blocked [OF b])
  show "filter is_precondition_error (fst (toggleTranslation transport now roomRef s)) =
        [ConsoleError ''room not connected'', Alert ''connect to a room first'']"
    by (simp add: toggle_blocked [OF b])
  show "run (fst (toggleTranslation transport now roomRef s)) s = s"
    by (simp add: toggle_blocked [OF b] run_Cons run_Nil)
next
  show "filter is_send (fst (toggleTranslation transport now roomRef s)) \<noteq> []
        \<longleftrightarrow> isConnected s \<and> mic_live roomRef"
    by (rule toggle_sends_iff)
next
  assume "\<not> isConnected s \<or> roomRef = None \<or> agentParticipant s = None"
  then show "toggleTranslation_rpc rpc roomRef s =
          ([ConsoleError ''room not connected or no agent found''], Inr ())"
    by (rule toggle_rpc_blocked)
next
  show "filter is_send (fst (toggleTranslation_rpc rpc roomRef s)) \<noteq> []
        \<longleftrightarrow> isConnected s \<and> roomRef \<noteq> None \<and> agentParticipant s \<noteq> None"
  proof
    assume sends: "filter is_send (fst (toggleTranslation_rpc rpc roomRef s)) \<noteq> []"
    show "isConnected s \<and> roomRef \<noteq> None \<and> agentParticipant s \<noteq> None"
    proof (rule ccontr)
      assume "\<not> (isConnected s \<and> roomRef \<noteq> None \<and> agentParticipant s \<noteq> None)"
      then have "\<not> isConnected s \<or> roomRef = None \<or> agentParticipant s = None" by blast
      then have "filter is_send (fst (toggleTranslation_rpc rpc roomRef s)) = []"
        by (simp add: toggle_rpc_blocked)
      then show False using sends by simp
    qed
  next
    assume "isConnected s \<and> roomRef \<noteq> None \<and> agentParticipant s \<noteq> None"
    then show "filter is_send (fst (toggleTranslation_rpc rpc roomRef s)) \<noteq> []"
      by (simp add: toggle_rpc_sends)
  qed
qed

theorem toggle_precondition_witness:
  "\<not> isConnected initial_state
   \<and> filter is_send (fst (toggleTranslation (\<lambda>m. Inr ()) 1000 (Some live_room) initial_state)) = []
   \<and> run (fst (toggleTranslation (\<lambda>m. Inr ()) 1000 (Some live_room) initial_state)) initial_state
       = initial_state
   \<and> agentParticipant (initial_state\<lparr>isConnected := True\<rparr>) = None
   \<and> toggleTranslation_rpc (\<lambda>dest method. Inr ()) (Some live_room) (initial_state\<lparr>isConnected := True\<rparr>)
       = ([ConsoleError ''room not connected or no agent found''], Inr ())"
proof -
  have a: "\<not> isConnected initial_state" by (simp add: initial_state_def)
  have b: "agentParticipant (initial_state\<lparr>isConnected := True\<rparr>) = None"
    by (simp add: initial_state_def)
  show ?thesis
    using toggle_precondition [of initial_state "Some live_room" "\<lambda>m. Inr ()" 1000 "\<lambda>dest method. Inr ()"]
          toggle_precondition [of "initial_state\<lparr>isConnected := True\<rparr>" "Some live_room"
                                  "\<lambda>m. Inr ()" 1000 "\<lambda>dest method. Inr ()"]
          a b
    by simp
qed

end
